theory Spec2Isabelle
  imports Main
begin

section \<open>Employee ETL: the SCD Type II dimension table and its batch process\<close>

text \<open>
  A shallow embedding of \<^verbatim>\<open>python_employee_etl.py\<close>. The table
  \<^verbatim>\<open>hr.dim_employee\<close> is a list of rows in insertion order; each SQL statement
  the program sends is a function on that list; the transaction of
  \<^verbatim>\<open>set_employee\<close> is the pair of the table before and the table after.
\<close>

subsection \<open>Dates, strings and JSON objects\<close>

text \<open>
  A \<^verbatim>\<open>datetime.date\<close> is modelled by its proleptic Gregorian ordinal
  (\<^verbatim>\<open>date.toordinal()\<close>): comparison of dates is comparison of ordinals, and
  \<^verbatim>\<open>d - INTERVAL '1 day'\<close> is the ordinal minus one. The constructor is only
  applied to valid civil dates.
\<close>

definition is_leap :: "int \<Rightarrow> bool" where
  "is_leap y \<longleftrightarrow> y mod 4 = 0 \<and> (y mod 100 \<noteq> 0 \<or> y mod 400 = 0)"

definition days_before_year :: "int \<Rightarrow> int" where
  "days_before_year year =
     (let y = year - 1 in y * 365 + y div 4 - y div 100 + y div 400)"

definition days_in_month :: "int list" where
  "days_in_month = [31, 28, 31, 30, 31, 30, 31, 31, 30, 31, 30, 31]"

definition days_before_month :: "int \<Rightarrow> nat \<Rightarrow> int" where
  "days_before_month year month =
     sum_list (take (month - 1) days_in_month) + (if month > 2 \<and> is_leap year then 1 else 0)"

definition date :: "int \<Rightarrow> nat \<Rightarrow> nat \<Rightarrow> int" where
  "date year month day = days_before_year year + days_before_month year month + int day"

text \<open>The value of \<^verbatim>\<open>date(9999, 12, 31)\<close> and of \<^verbatim>\<open>'9999-12-31'::date\<close>.\<close>

definition infinite_date :: int where
  "infinite_date = date 9999 12 31"

text \<open>
  A JSON object whose values are strings or \<^verbatim>\<open>null\<close>: a key is absent
  (\<open>None\<close>), present with \<^verbatim>\<open>null\<close> (\<open>Some None\<close>) or present with a string.
  \<^verbatim>\<open>d.get(k)\<close> gives \<^verbatim>\<open>None\<close> in the first two cases; \<^verbatim>\<open>d.get(k, default)\<close>
  gives the default only when the key is absent.
\<close>

type_synonym json_obj = "string \<rightharpoonup> string option"

definition get :: "json_obj \<Rightarrow> string \<Rightarrow> string option" where
  "get d k = (case d k of None \<Rightarrow> None | Some v \<Rightarrow> v)"

definition get_default :: "json_obj \<Rightarrow> string \<Rightarrow> string \<Rightarrow> string option" where
  "get_default d k dflt = (case d k of None \<Rightarrow> Some dflt | Some v \<Rightarrow> v)"

text \<open>How an f-string formats a value that is a string or \<^verbatim>\<open>None\<close>.\<close>

definition py_str :: "string option \<Rightarrow> string" where
  "py_str v = (case v of None \<Rightarrow> ''None'' | Some s \<Rightarrow> s)"

text \<open>
  \<^verbatim>\<open>str.strip()\<close>: the characters below 256 for which \<^verbatim>\<open>str.isspace\<close> holds
  are removed from both ends.
\<close>

definition py_isspace :: "char \<Rightarrow> bool" where
  "py_isspace c \<longleftrightarrow> (of_char c :: nat) \<in> {9, 10, 11, 12, 13, 28, 29, 30, 31, 32, 133, 160}"

definition strip :: "string \<Rightarrow> string" where
  "strip s = rev (dropWhile py_isspace (rev (dropWhile py_isspace s)))"

subsection \<open>The input file and the parsed batch\<close>

text \<open>
  One element of the file's \<^verbatim>\<open>employees\<close> array. \<^verbatim>\<open>operation_type\<close> is
  \<open>None\<close> when the key is absent; the nested objects are the empty map when absent,
  as \<^verbatim>\<open>.get(key, {})\<close> makes them. The \<^verbatim>\<open>address\<close> object is nested in
  \<^verbatim>\<open>contact_info\<close> in the file and kept beside it here.
\<close>

record employee_data =
  ed_employee_id :: "string option"
  ed_personal_info :: json_obj
  ed_contact_info :: json_obj
  ed_address :: json_obj
  ed_employment_data :: json_obj

record employee_record =
  operation_type :: "string option"
  employee_data :: employee_data

text \<open>The dictionary built by \<^verbatim>\<open>_extract_new_employee_data\<close>.\<close>

record new_employee =
  ne_employee_id :: "string option"
  ne_first_name :: "string option"
  ne_last_name :: "string option"
  ne_full_name :: "string option"
  ne_email_address :: "string option"
  ne_phone_number :: "string option"
  ne_birth_date :: "string option"
  ne_gender :: "string option"
  ne_ethnicity :: "string option"
  ne_nationality :: "string option"
  ne_marital_status :: "string option"
  ne_address_line1 :: "string option"
  ne_address_line2 :: "string option"
  ne_city :: "string option"
  ne_state_province :: "string option"
  ne_postal_code :: "string option"
  ne_country_code :: "string option"
  ne_hire_date :: "string option"
  ne_is_active :: bool
  ne_effective_date :: int
  ne_expiry_date :: int
  ne_is_current :: bool

text \<open>The dictionary built by \<^verbatim>\<open>_extract_address_update_data\<close>.\<close>

record address_update =
  au_employee_id :: "string option"
  au_address_line1 :: "string option"
  au_address_line2 :: "string option"
  au_city :: "string option"
  au_state_province :: "string option"
  au_postal_code :: "string option"
  au_country_code :: "string option"
  au_effective_date :: int

text \<open>The dictionary built by \<^verbatim>\<open>_extract_name_address_update_data\<close>.\<close>

record name_address_update =
  nu_employee_id :: "string option"
  nu_last_name :: "string option"
  nu_address_line1 :: "string option"
  nu_address_line2 :: "string option"
  nu_city :: "string option"
  nu_state_province :: "string option"
  nu_postal_code :: "string option"
  nu_country_code :: "string option"
  nu_effective_date :: int

text \<open>
  The three lists of \<^verbatim>\<open>parsed_data\<close>. Its \<^verbatim>\<open>metadata\<close> entry is written once
  and read by nothing, and is left out.
\<close>

record parsed_data =
  new_employees :: "new_employee list"
  address_updates :: "address_update list"
  name_and_address_updates :: "name_address_update list"

text \<open>
  \<open>today\<close> is the value of \<^verbatim>\<open>date.today()\<close>, taken to be the same for every
  event of a file.
\<close>

definition extract_new_employee_data :: "int \<Rightarrow> employee_data \<Rightarrow> new_employee" where
  "extract_new_employee_data today ed =
     (let personal_info = ed_personal_info ed;
          contact_info = ed_contact_info ed;
          address = ed_address ed;
          employment_data = ed_employment_data ed
      in \<lparr> ne_employee_id = ed_employee_id ed,
           ne_first_name = get personal_info ''first_name'',
           ne_last_name = get personal_info ''last_name'',
           ne_full_name = Some (strip (py_str (get_default personal_info ''first_name'' '''')
                            @ '' '' @ py_str (get_default personal_info ''last_name'' ''''))),
           ne_email_address = get contact_info ''email_address'',
           ne_phone_number = get contact_info ''phone_number'',
           ne_birth_date = get personal_info ''birth_date'',
           ne_gender = get personal_info ''gender'',
           ne_ethnicity = get personal_info ''ethnicity'',
           ne_nationality = get personal_info ''nationality'',
           ne_marital_status = get personal_info ''marital_status'',
           ne_address_line1 = get address ''address_line1'',
           ne_address_line2 = get address ''address_line2'',
           ne_city = get address ''city'',
           ne_state_province = get address ''state_province'',
           ne_postal_code = get address ''postal_code'',
           ne_country_code = get address ''country_code'',
           ne_hire_date = get employment_data ''hire_date'',
           ne_is_active = True,
           ne_effective_date = today,
           ne_expiry_date = date 9999 12 31,
           ne_is_current = True \<rparr>)"

definition extract_address_update_data :: "int \<Rightarrow> employee_data \<Rightarrow> address_update" where
  "extract_address_update_data today ed =
     (let address = ed_address ed
      in \<lparr> au_employee_id = ed_employee_id ed,
           au_address_line1 = get address ''address_line1'',
           au_address_line2 = get address ''address_line2'',
           au_city = get address ''city'',
           au_state_province = get address ''state_province'',
           au_postal_code = get address ''postal_code'',
           au_country_code = get address ''country_code'',
           au_effective_date = today \<rparr>)"

definition extract_name_address_update_data :: "int \<Rightarrow> employee_data \<Rightarrow> name_address_update" where
  "extract_name_address_update_data today ed =
     (let personal_info = ed_personal_info ed;
          address = ed_address ed
      in \<lparr> nu_employee_id = ed_employee_id ed,
           nu_last_name = get personal_info ''last_name'',
           nu_address_line1 = get address ''address_line1'',
           nu_address_line2 = get address ''address_line2'',
           nu_city = get address ''city'',
           nu_state_province = get address ''state_province'',
           nu_postal_code = get address ''postal_code'',
           nu_country_code = get address ''country_code'',
           nu_effective_date = today \<rparr>)"

text \<open>
  What \<^verbatim>\<open>open\<close> and \<^verbatim>\<open>json.load\<close> give: the two exceptions
  \<^verbatim>\<open>parse_employee_data\<close> logs and raises again, or the \<^verbatim>\<open>employees\<close> array
  (empty when the key is absent).
\<close>

datatype error = FileNotFoundError | JSONDecodeError | DatabaseError

datatype json_file = FileNotFound | InvalidJSON | Loaded "employee_record list"

text \<open>
  The loop of \<^verbatim>\<open>parse_employee_data\<close>: an \<^verbatim>\<open>if\<close>/\<^verbatim>\<open>elif\<close> chain on the
  operation type with no final \<^verbatim>\<open>else\<close>; each branch appends to its own list.
\<close>

definition get_operation_type :: "employee_record \<Rightarrow> string" where
  "get_operation_type r = (case operation_type r of None \<Rightarrow> '''' | Some s \<Rightarrow> s)"

fun parse_loop :: "int \<Rightarrow> employee_record list \<Rightarrow> parsed_data \<Rightarrow> parsed_data" where
  "parse_loop today [] pd = pd"
| "parse_loop today (r # rs) pd =
     (let op = get_operation_type r;
          ed = employee_data r
      in if op = ''INSERT'' then
           parse_loop today rs
             (pd\<lparr>new_employees := new_employees pd @ [extract_new_employee_data today ed]\<rparr>)
         else if op = ''UPDATE_ADDRESS'' then
           parse_loop today rs
             (pd\<lparr>address_updates := address_updates pd @ [extract_address_update_data today ed]\<rparr>)
         else if op = ''UPDATE_NAME_ADDRESS'' then
           parse_loop today rs
             (pd\<lparr>name_and_address_updates :=
                   name_and_address_updates pd @ [extract_name_address_update_data today ed]\<rparr>)
         else parse_loop today rs pd)"

definition parse_employee_data :: "int \<Rightarrow> json_file \<Rightarrow> error + parsed_data" where
  "parse_employee_data today file =
     (case file of
        FileNotFound \<Rightarrow> Inl FileNotFoundError
      | InvalidJSON \<Rightarrow> Inl JSONDecodeError
      | Loaded employees \<Rightarrow>
          Inr (parse_loop today employees
                 \<lparr> new_employees = [], address_updates = [], name_and_address_updates = [] \<rparr>))"

subsection \<open>The table \<^verbatim>\<open>hr.dim_employee\<close>\<close>

text \<open>
  One row, with the columns the statements name and the key they order by.
  \<^verbatim>\<open>created_date\<close> and \<^verbatim>\<open>updated_date\<close> hold the value of
  \<^verbatim>\<open>CURRENT_TIMESTAMP\<close>, which is fixed for the length of a transaction and is the
  parameter \<open>now\<close> below.
\<close>

record row =
  employee_key :: nat
  employee_id :: "string option"
  first_name :: "string option"
  last_name :: "string option"
  full_name :: "string option"
  email_address :: "string option"
  phone_number :: "string option"
  birth_date :: "string option"
  gender :: "string option"
  ethnicity :: "string option"
  nationality :: "string option"
  marital_status :: "string option"
  address_line1 :: "string option"
  address_line2 :: "string option"
  city :: "string option"
  state_province :: "string option"
  postal_code :: "string option"
  country_code :: "string option"
  hire_date :: "string option"
  termination_date :: "string option"
  is_active :: bool
  effective_date :: int
  expiry_date :: int
  is_current :: bool
  created_date :: nat
  updated_date :: nat

text \<open>
  Modelled from the spec: the table's definition is not part of the source. The
  spec's data model says of the surrogate key that it is unique per row and
  monotonically assigned, so an inserted row gets a key above every key of the table.
\<close>

definition next_employee_key :: "row list \<Rightarrow> nat" where
  "next_employee_key rows = Suc (fold max (map employee_key rows) 0)"

text \<open>
  Modelled from the spec: the constraints of the table are not part of the source
  either. The spec's error design names a store error (constraint violation) that
  aborts the batch, so the constraints are a parameter \<open>ok\<close>, a predicate on the
  table: a statement that changes the table into one that violates it raises
  \<^verbatim>\<open>psycopg2.Error\<close>, and a statement that changes nothing raises nothing.
\<close>

type_synonym constraints = "row list \<Rightarrow> bool"

definition unconstrained :: constraints where
  "unconstrained rows = True"

definition execute_insert :: "constraints \<Rightarrow> row \<Rightarrow> row list \<Rightarrow> error + row list" where
  "execute_insert ok r rows =
     (let rows' = rows @ [r\<lparr>employee_key := next_employee_key rows\<rparr>]
      in if ok rows' then Inr rows' else Inl DatabaseError)"

definition execute_update :: "constraints \<Rightarrow> row list \<Rightarrow> row list \<Rightarrow> error + row list" where
  "execute_update ok rows' rows =
     (if rows' = rows \<or> ok rows' then Inr rows' else Inl DatabaseError)"

text \<open>SQL's \<^verbatim>\<open>=\<close> in a \<^verbatim>\<open>WHERE\<close> clause: a comparison with \<^verbatim>\<open>NULL\<close> selects nothing.\<close>

definition sql_eq :: "'a option \<Rightarrow> 'a option \<Rightarrow> bool" where
  "sql_eq a b \<longleftrightarrow> a \<noteq> None \<and> b \<noteq> None \<and> a = b"

subsection \<open>\<^verbatim>\<open>_insert_new_employees\<close>\<close>

text \<open>The row of \<^verbatim>\<open>insert_sql\<close>; the key is filled in by \<open>execute_insert\<close>.\<close>

definition insert_sql :: "nat \<Rightarrow> new_employee \<Rightarrow> row" where
  "insert_sql now employee =
     \<lparr> employee_key = 0,
       employee_id = ne_employee_id employee,
       first_name = ne_first_name employee,
       last_name = ne_last_name employee,
       full_name = ne_full_name employee,
       email_address = ne_email_address employee,
       phone_number = ne_phone_number employee,
       birth_date = ne_birth_date employee,
       gender = ne_gender employee,
       ethnicity = ne_ethnicity employee,
       nationality = ne_nationality employee,
       marital_status = ne_marital_status employee,
       address_line1 = ne_address_line1 employee,
       address_line2 = ne_address_line2 employee,
       city = ne_city employee,
       state_province = ne_state_province employee,
       postal_code = ne_postal_code employee,
       country_code = ne_country_code employee,
       hire_date = ne_hire_date employee,
       termination_date = None,
       is_active = ne_is_active employee,
       effective_date = ne_effective_date employee,
       expiry_date = ne_expiry_date employee,
       is_current = ne_is_current employee,
       created_date = now,
       updated_date = now \<rparr>"

fun insert_loop ::
  "constraints \<Rightarrow> nat \<Rightarrow> new_employee list \<Rightarrow> nat \<Rightarrow> row list \<Rightarrow> error + (nat \<times> row list)" where
  "insert_loop ok now [] count rows = Inr (count, rows)"
| "insert_loop ok now (employee # rest) count rows =
     (case execute_insert ok (insert_sql now employee) rows of
        Inl e \<Rightarrow> Inl e
      | Inr rows' \<Rightarrow> insert_loop ok now rest (count + 1) rows')"

definition insert_new_employees ::
  "constraints \<Rightarrow> nat \<Rightarrow> new_employee list \<Rightarrow> row list \<Rightarrow> error + (nat \<times> row list)" where
  "insert_new_employees ok now new_emps rows = insert_loop ok now new_emps 0 rows"

subsection \<open>The statements of the two update functions\<close>

text \<open>
  Step 1, \<^verbatim>\<open>close_sql\<close>: an \<^verbatim>\<open>UPDATE\<close> that applies its \<^verbatim>\<open>SET\<close> clause
  (\<open>close_set\<close>) to every row the \<^verbatim>\<open>WHERE\<close> clause selects.
\<close>

definition close_set :: "nat \<Rightarrow> int \<Rightarrow> row \<Rightarrow> row" where
  "close_set now eff r = r\<lparr>expiry_date := eff - 1, is_current := False, updated_date := now\<rparr>"

definition close_sql :: "nat \<Rightarrow> int \<Rightarrow> string option \<Rightarrow> row list \<Rightarrow> row list" where
  "close_sql now eff eid rows =
     map (\<lambda>r. if sql_eq (employee_id r) eid \<and> is_current r then close_set now eff r else r) rows"

text \<open>
  Step 2, \<^verbatim>\<open>select_sql\<close> and \<^verbatim>\<open>fetchone\<close>: of the rows the \<^verbatim>\<open>WHERE\<close> clause
  selects, the one with the largest key (\<^verbatim>\<open>ORDER BY employee_key DESC LIMIT 1\<close>), or
  \<^verbatim>\<open>None\<close>. The whole row is returned; the two callers read only the columns their
  \<^verbatim>\<open>SELECT\<close> lists.
\<close>

definition select_sql :: "string option \<Rightarrow> int \<Rightarrow> row list \<Rightarrow> row option" where
  "select_sql eid eff rows =
     (case filter (\<lambda>r. sql_eq (employee_id r) eid \<and> expiry_date r = eff - 1) rows of
        [] \<Rightarrow> None
      | r # rs \<Rightarrow> Some (fold (\<lambda>a b. if employee_key b < employee_key a then a else b) rs r))"

text \<open>Step 3 of \<^verbatim>\<open>_update_employee_addresses\<close>: \<^verbatim>\<open>insert_params\<close> as a row.\<close>

definition address_insert_params :: "nat \<Rightarrow> row \<Rightarrow> address_update \<Rightarrow> row" where
  "address_insert_params now existing_data update =
     \<lparr> employee_key = 0,
       employee_id = employee_id existing_data,
       first_name = first_name existing_data,
       last_name = last_name existing_data,
       full_name = full_name existing_data,
       email_address = email_address existing_data,
       phone_number = phone_number existing_data,
       birth_date = birth_date existing_data,
       gender = gender existing_data,
       ethnicity = ethnicity existing_data,
       nationality = nationality existing_data,
       marital_status = marital_status existing_data,
       address_line1 = au_address_line1 update,
       address_line2 = au_address_line2 update,
       city = au_city update,
       state_province = au_state_province update,
       postal_code = au_postal_code update,
       country_code = au_country_code update,
       hire_date = hire_date existing_data,
       termination_date = termination_date existing_data,
       is_active = is_active existing_data,
       effective_date = au_effective_date update,
       expiry_date = infinite_date,
       is_current = True,
       created_date = now,
       updated_date = now \<rparr>"

text \<open>
  Step 3 of \<^verbatim>\<open>_update_employee_names_addresses\<close>: the last name comes from the
  update and the full name is the f-string of the old first name and the new last name.
\<close>

definition name_address_insert_params :: "nat \<Rightarrow> row \<Rightarrow> name_address_update \<Rightarrow> row" where
  "name_address_insert_params now existing_data update =
     (let new_full_name = py_str (first_name existing_data) @ '' '' @ py_str (nu_last_name update)
      in \<lparr> employee_key = 0,
           employee_id = employee_id existing_data,
           first_name = first_name existing_data,
           last_name = nu_last_name update,
           full_name = Some new_full_name,
           email_address = email_address existing_data,
           phone_number = phone_number existing_data,
           birth_date = birth_date existing_data,
           gender = gender existing_data,
           ethnicity = ethnicity existing_data,
           nationality = nationality existing_data,
           marital_status = marital_status existing_data,
           address_line1 = nu_address_line1 update,
           address_line2 = nu_address_line2 update,
           city = nu_city update,
           state_province = nu_state_province update,
           postal_code = nu_postal_code update,
           country_code = nu_country_code update,
           hire_date = hire_date existing_data,
           termination_date = termination_date existing_data,
           is_active = is_active existing_data,
           effective_date = nu_effective_date update,
           expiry_date = infinite_date,
           is_current = True,
           created_date = now,
           updated_date = now \<rparr>)"

text \<open>
  The three steps for one element of the list, shared by the two functions: close,
  select, and insert when \<^verbatim>\<open>fetchone\<close> gave a row. The result says whether the
  counter is incremented.
\<close>

definition scd2_step ::
  "constraints \<Rightarrow> nat \<Rightarrow> string option \<Rightarrow> int \<Rightarrow> (row \<Rightarrow> row) \<Rightarrow> row list
     \<Rightarrow> error + (bool \<times> row list)" where
  "scd2_step ok now eid eff insert_params rows =
     (case execute_update ok (close_sql now eff eid rows) rows of
        Inl e \<Rightarrow> Inl e
      | Inr rows1 \<Rightarrow>
          (case select_sql eid eff rows1 of
             None \<Rightarrow> Inr (False, rows1)
           | Some existing_data \<Rightarrow>
               (case execute_insert ok (insert_params existing_data) rows1 of
                  Inl e \<Rightarrow> Inl e
                | Inr rows2 \<Rightarrow> Inr (True, rows2))))"

definition address_step ::
  "constraints \<Rightarrow> nat \<Rightarrow> address_update \<Rightarrow> row list \<Rightarrow> error + (bool \<times> row list)" where
  "address_step ok now update rows =
     scd2_step ok now (au_employee_id update) (au_effective_date update)
       (\<lambda>existing_data. address_insert_params now existing_data update) rows"

definition name_address_step ::
  "constraints \<Rightarrow> nat \<Rightarrow> name_address_update \<Rightarrow> row list \<Rightarrow> error + (bool \<times> row list)" where
  "name_address_step ok now update rows =
     scd2_step ok now (nu_employee_id update) (nu_effective_date update)
       (\<lambda>existing_data. name_address_insert_params now existing_data update) rows"

subsection \<open>\<^verbatim>\<open>_update_employee_addresses\<close> and \<^verbatim>\<open>_update_employee_names_addresses\<close>\<close>

fun address_loop ::
  "constraints \<Rightarrow> nat \<Rightarrow> address_update list \<Rightarrow> nat \<Rightarrow> row list \<Rightarrow> error + (nat \<times> row list)" where
  "address_loop ok now [] count rows = Inr (count, rows)"
| "address_loop ok now (update # rest) count rows =
     (case address_step ok now update rows of
        Inl e \<Rightarrow> Inl e
      | Inr (found, rows') \<Rightarrow>
          address_loop ok now rest (if found then count + 1 else count) rows')"

definition update_employee_addresses ::
  "constraints \<Rightarrow> nat \<Rightarrow> address_update list \<Rightarrow> row list \<Rightarrow> error + (nat \<times> row list)" where
  "update_employee_addresses ok now updates rows = address_loop ok now updates 0 rows"

fun name_address_loop ::
  "constraints \<Rightarrow> nat \<Rightarrow> name_address_update list \<Rightarrow> nat \<Rightarrow> row list
     \<Rightarrow> error + (nat \<times> row list)" where
  "name_address_loop ok now [] count rows = Inr (count, rows)"
| "name_address_loop ok now (update # rest) count rows =
     (case name_address_step ok now update rows of
        Inl e \<Rightarrow> Inl e
      | Inr (found, rows') \<Rightarrow>
          name_address_loop ok now rest (if found then count + 1 else count) rows')"

definition update_employee_names_addresses ::
  "constraints \<Rightarrow> nat \<Rightarrow> name_address_update list \<Rightarrow> row list
     \<Rightarrow> error + (nat \<times> row list)" where
  "update_employee_names_addresses ok now updates rows = name_address_loop ok now updates 0 rows"

subsection \<open>\<^verbatim>\<open>set_employee\<close>: one transaction\<close>

text \<open>
  The three functions run in this order on the three lists. An exception from any of
  them is caught, the transaction is rolled back (the table is the one the call
  started with) and the result is \<^verbatim>\<open>False\<close>; otherwise the transaction commits.
\<close>

definition set_employee ::
  "constraints \<Rightarrow> nat \<Rightarrow> parsed_data \<Rightarrow> row list \<Rightarrow> bool \<times> row list" where
  "set_employee ok now parsed rows =
     (case insert_new_employees ok now (new_employees parsed) rows of
        Inl e \<Rightarrow> (False, rows)
      | Inr (new_count, rows1) \<Rightarrow>
          (case update_employee_addresses ok now (address_updates parsed) rows1 of
             Inl e \<Rightarrow> (False, rows)
           | Inr (address_count, rows2) \<Rightarrow>
               (case update_employee_names_addresses ok now
                       (name_and_address_updates parsed) rows2 of
                  Inl e \<Rightarrow> (False, rows)
                | Inr (name_count, rows3) \<Rightarrow> (True, rows3))))"

subsection \<open>\<^verbatim>\<open>validate_data_quality\<close> and \<^verbatim>\<open>main\<close>\<close>

text \<open>
  \<^verbatim>\<open>dup_check_sql\<close>: one result row per group of current rows with the same
  \<^verbatim>\<open>employee_id\<close> (\<^verbatim>\<open>GROUP BY\<close> puts the \<^verbatim>\<open>NULL\<close>s into one group) that has more
  than one member, with the size of the group. SQL leaves the order of the result rows
  open; here it is the order of \<open>remdups\<close>.
\<close>

definition dup_check_sql :: "row list \<Rightarrow> (string option \<times> nat) list" where
  "dup_check_sql rows =
     (let current = filter is_current rows
      in filter (\<lambda>(emp_id, count). count > 1)
           (map (\<lambda>emp_id. (emp_id, length (filter (\<lambda>r. employee_id r = emp_id) current)))
                (remdups (map employee_id current))))"

definition date_check_sql :: "row list \<Rightarrow> (string option \<times> int \<times> int) list" where
  "date_check_sql rows =
     map (\<lambda>r. (employee_id r, effective_date r, expiry_date r))
         (filter (\<lambda>r. effective_date r \<ge> expiry_date r) rows)"

definition validate_data_quality :: "row list \<Rightarrow> bool" where
  "validate_data_quality rows =
     (let duplicates = dup_check_sql rows
      in if duplicates \<noteq> [] then False
         else let invalid_dates = date_check_sql rows
              in if invalid_dates \<noteq> [] then False else True)"

text \<open>
  \<^verbatim>\<open>main\<close> after the argument check: what it logs last (or that it exits with
  status 1), and the table it leaves. \<open>connected\<close> is the result of
  \<^verbatim>\<open>connect_to_database\<close>.
\<close>

datatype outcome = Exit1 | Validation_Passed | Quality_Issues_Detected

definition main ::
  "constraints \<Rightarrow> nat \<Rightarrow> int \<Rightarrow> bool \<Rightarrow> json_file \<Rightarrow> row list \<Rightarrow> outcome \<times> row list" where
  "main ok now today connected file rows =
     (if \<not> connected then (Exit1, rows)
      else case parse_employee_data today file of
             Inl e \<Rightarrow> (Exit1, rows)
           | Inr parsed_data \<Rightarrow>
               (case set_employee ok now parsed_data rows of
                  (True, rows') \<Rightarrow>
                    (if validate_data_quality rows' then (Validation_Passed, rows')
                     else (Quality_Issues_Detected, rows'))
                | (False, rows') \<Rightarrow> (Exit1, rows')))"

subsection \<open>The order the specification asks for\<close>

text \<open>
  The specification's batch coordinator applies the events one by one in the order of
  the input, whatever their kind, each to the table the one before left, in one
  transaction. \<open>apply_event\<close> is what the program does for one event of each kind;
  \<open>run_in_input_order\<close> is the coordinator as the specification words it, to be
  compared with \<open>set_employee\<close> after \<open>parse_employee_data\<close>.
\<close>

definition apply_event ::
  "constraints \<Rightarrow> nat \<Rightarrow> int \<Rightarrow> employee_record \<Rightarrow> row list \<Rightarrow> error + row list" where
  "apply_event ok now today r rows =
     (let op = get_operation_type r; ed = employee_data r
      in if op = ''INSERT'' then
           execute_insert ok (insert_sql now (extract_new_employee_data today ed)) rows
         else if op = ''UPDATE_ADDRESS'' then
           map_sum id snd (address_step ok now (extract_address_update_data today ed) rows)
         else if op = ''UPDATE_NAME_ADDRESS'' then
           map_sum id snd
             (name_address_step ok now (extract_name_address_update_data today ed) rows)
         else Inr rows)"

fun apply_in_order ::
  "constraints \<Rightarrow> nat \<Rightarrow> int \<Rightarrow> employee_record list \<Rightarrow> row list \<Rightarrow> error + row list" where
  "apply_in_order ok now today [] rows = Inr rows"
| "apply_in_order ok now today (r # rs) rows =
     (case apply_event ok now today r rows of
        Inl e \<Rightarrow> Inl e
      | Inr rows' \<Rightarrow> apply_in_order ok now today rs rows')"

definition run_in_input_order ::
  "constraints \<Rightarrow> nat \<Rightarrow> int \<Rightarrow> employee_record list \<Rightarrow> row list \<Rightarrow> bool \<times> row list" where
  "run_in_input_order ok now today events rows =
     (case apply_in_order ok now today events rows of
        Inl e \<Rightarrow> (False, rows)
      | Inr rows' \<Rightarrow> (True, rows'))"

definition of_kind :: "string \<Rightarrow> employee_record list \<Rightarrow> employee_record list" where
  "of_kind k events = filter (\<lambda>r. get_operation_type r = k) events"

subsection \<open>Example inputs\<close>

text \<open>The entity of the specification's scenarios A and B, and the change of scenario B.\<close>

definition ana_diaz :: employee_data where
  "ana_diaz =
     \<lparr> ed_employee_id = Some ''E1'',
       ed_personal_info = [''first_name'' \<mapsto> Some ''Ana'', ''last_name'' \<mapsto> Some ''Diaz''],
       ed_contact_info = Map.empty,
       ed_address = [''address_line1'' \<mapsto> Some ''Av. Arequipa 100'', ''city'' \<mapsto> Some ''Lima''],
       ed_employment_data = Map.empty \<rparr>"

definition to_cusco :: employee_data where
  "to_cusco =
     \<lparr> ed_employee_id = Some ''E1'',
       ed_personal_info = Map.empty,
       ed_contact_info = Map.empty,
       ed_address = [''city'' \<mapsto> Some ''Cusco''],
       ed_employment_data = Map.empty \<rparr>"

text \<open>The entities of scenario C.\<close>

definition e2_new :: employee_data where
  "e2_new =
     \<lparr> ed_employee_id = Some ''E2'',
       ed_personal_info = [''first_name'' \<mapsto> Some ''Luis'', ''last_name'' \<mapsto> Some ''Rojas''],
       ed_contact_info = Map.empty,
       ed_address = [''city'' \<mapsto> Some ''Piura''],
       ed_employment_data = Map.empty \<rparr>"

definition e3_change :: employee_data where
  "e3_change =
     \<lparr> ed_employee_id = Some ''E3'',
       ed_personal_info = Map.empty,
       ed_contact_info = Map.empty,
       ed_address = [''city'' \<mapsto> Some ''Tacna''],
       ed_employment_data = Map.empty \<rparr>"

definition event :: "string \<Rightarrow> employee_data \<Rightarrow> employee_record" where
  "event k ed = \<lparr> operation_type = Some k, employee_data = ed \<rparr>"

text \<open>Batches: scenario A, scenarios A and B in one file, the same with the two
  events swapped, and scenario C.\<close>

definition scenario_A :: "employee_record list" where
  "scenario_A = [event ''INSERT'' ana_diaz]"

definition scenario_AB :: "employee_record list" where
  "scenario_AB = [event ''INSERT'' ana_diaz, event ''UPDATE_ADDRESS'' to_cusco]"

definition scenario_BA :: "employee_record list" where
  "scenario_BA = [event ''UPDATE_ADDRESS'' to_cusco, event ''INSERT'' ana_diaz]"

definition scenario_C :: "employee_record list" where
  "scenario_C = [event ''INSERT'' e2_new, event ''UPDATE_ADDRESS'' e3_change]"

text \<open>What \<^verbatim>\<open>main\<close> leaves of a file on a table without constraints.\<close>

definition run_file :: "nat \<Rightarrow> int \<Rightarrow> employee_record list \<Rightarrow> row list \<Rightarrow> outcome \<times> row list" where
  "run_file now today events rows = main unconstrained now today True (Loaded events) rows"

text \<open>The table scenario A leaves when run on the empty table the day before scenario B.\<close>

definition after_A :: "row list" where
  "after_A = snd (run_file 0 (date 2025 8 12) scenario_A [])"

text \<open>Scenario B alone, for a run on the day after scenario A.\<close>

definition scenario_B :: "employee_record list" where
  "scenario_B = [event ''UPDATE_ADDRESS'' to_cusco]"

text \<open>The table after the file of scenario A has been run a second time, a day later.\<close>

definition after_rerun :: "row list" where
  "after_rerun = snd (run_file 1 (date 2025 8 13) scenario_A after_A)"

text \<open>
  A second insert for E1 under another first name, and the table that holds both
  inserts as current rows.
\<close>

definition ana_maria :: employee_data where
  "ana_maria =
     \<lparr> ed_employee_id = Some ''E1'',
       ed_personal_info = [''first_name'' \<mapsto> Some ''Ana Maria'', ''last_name'' \<mapsto> Some ''Diaz''],
       ed_contact_info = Map.empty,
       ed_address = [''city'' \<mapsto> Some ''Lima''],
       ed_employment_data = Map.empty \<rparr>"

definition two_current :: "row list" where
  "two_current =
     snd (run_file 0 (date 2025 8 10)
            [event ''INSERT'' ana_diaz, event ''INSERT'' ana_maria] [])"

text \<open>The table scenario B leaves of \<open>two_current\<close> when run on 2025-08-13.\<close>

definition two_closed :: "row list" where
  "two_closed = snd (run_file 1 (date 2025 8 13) scenario_B two_current)"

text \<open>
  A name-and-address change for E1, and the table it leaves of \<open>two_current\<close> when
  run on 2025-08-13.
\<close>

definition to_cusco_quispe :: employee_data where
  "to_cusco_quispe =
     \<lparr> ed_employee_id = Some ''E1'',
       ed_personal_info = [''last_name'' \<mapsto> Some ''Quispe''],
       ed_contact_info = Map.empty,
       ed_address = [''city'' \<mapsto> Some ''Cusco''],
       ed_employment_data = Map.empty \<rparr>"

definition two_renamed :: "row list" where
  "two_renamed =
     snd (run_file 1 (date 2025 8 13)
            [event ''UPDATE_NAME_ADDRESS'' to_cusco_quispe] two_current)"

text \<open>The table scenario B leaves of \<open>after_A\<close> when run on 2025-08-13.\<close>

definition after_B :: "row list" where
  "after_B = snd (run_file 1 (date 2025 8 13) scenario_B after_A)"

subsection \<open>What the close, the snapshot and the new version are\<close>

text \<open>
  The number \<^verbatim>\<open>COUNT(*)\<close> gives for the group of an \<^verbatim>\<open>employee_id\<close> in
  \<^verbatim>\<open>dup_check_sql\<close>: its current rows.
\<close>

definition current_count :: "string option \<Rightarrow> row list \<Rightarrow> nat" where
  "current_count emp_id rows =
     length (filter (\<lambda>r. employee_id r = emp_id) (filter is_current rows))"

text \<open>
  \<open>closes_all_current\<close>: the second table is the first one with every current row of
  the entity closed the day before \<open>eff\<close> and every other row as it was.
\<close>

definition closes_all_current ::
  "nat \<Rightarrow> int \<Rightarrow> string option \<Rightarrow> row list \<Rightarrow> row list \<Rightarrow> bool" where
  "closes_all_current now eff eid rows rows1 \<longleftrightarrow>
     length rows1 = length rows \<and>
     (\<forall>i < length rows.
        if sql_eq (employee_id (rows ! i)) eid \<and> is_current (rows ! i)
        then rows1 ! i =
               (rows ! i)\<lparr>expiry_date := eff - 1, is_current := False, updated_date := now\<rparr>
        else rows1 ! i = rows ! i)"

text \<open>
  \<open>latest_closed\<close>: \<open>s\<close> is a row of the entity that expires the day before
  \<open>eff\<close>, and no such row of the table has a larger key.
\<close>

definition latest_closed :: "string option \<Rightarrow> int \<Rightarrow> row list \<Rightarrow> row \<Rightarrow> bool" where
  "latest_closed eid eff rows1 s \<longleftrightarrow>
     s \<in> set rows1 \<and> sql_eq (employee_id s) eid \<and> expiry_date s = eff - 1 \<and>
     (\<forall>s' \<in> set rows1. sql_eq (employee_id s') eid \<and> expiry_date s' = eff - 1 \<longrightarrow>
        employee_key s' \<le> employee_key s)"

text \<open>
  \<open>carried_forward\<close>: the new row has the snapshot's value in each of the fourteen
  columns that \<^verbatim>\<open>select_sql\<close> of \<^verbatim>\<open>_update_employee_addresses\<close> lists;
  \<open>address_of_payload\<close>: each of its six address columns is what \<^verbatim>\<open>.get\<close> gives
  for that key of the event's address.
\<close>

definition carried_forward :: "row \<Rightarrow> row \<Rightarrow> bool" where
  "carried_forward s n \<longleftrightarrow>
     employee_id n = employee_id s \<and> first_name n = first_name s \<and>
     last_name n = last_name s \<and> full_name n = full_name s \<and>
     email_address n = email_address s \<and> phone_number n = phone_number s \<and>
     birth_date n = birth_date s \<and> gender n = gender s \<and> ethnicity n = ethnicity s \<and>
     nationality n = nationality s \<and> marital_status n = marital_status s \<and>
     hire_date n = hire_date s \<and> termination_date n = termination_date s \<and>
     is_active n = is_active s"

definition address_of_payload :: "json_obj \<Rightarrow> row \<Rightarrow> bool" where
  "address_of_payload address n \<longleftrightarrow>
     address_line1 n = get address ''address_line1'' \<and>
     address_line2 n = get address ''address_line2'' \<and>
     city n = get address ''city'' \<and>
     state_province n = get address ''state_province'' \<and>
     postal_code n = get address ''postal_code'' \<and>
     country_code n = get address ''country_code''"

section \<open>Properties\<close>

lemmas parse_defs = parse_employee_data_def get_operation_type_def event_def
  extract_new_employee_data_def extract_address_update_data_def
  extract_name_address_update_data_def get_def get_default_def py_str_def strip_def
  py_isspace_def

lemmas store_defs = set_employee_def insert_new_employees_def update_employee_addresses_def
  update_employee_names_addresses_def address_step_def name_address_step_def scd2_step_def
  execute_insert_def execute_update_def close_sql_def close_set_def select_sql_def sql_eq_def
  insert_sql_def address_insert_params_def name_address_insert_params_def
  next_employee_key_def unconstrained_def

lemmas date_defs = date_def days_before_year_def days_before_month_def days_in_month_def
  is_leap_def infinite_date_def

lemmas example_defs = ana_diaz_def to_cusco_def e2_new_def e3_change_def scenario_A_def
  scenario_AB_def scenario_BA_def scenario_C_def scenario_B_def ana_maria_def
  to_cusco_quispe_def
  two_current_def after_A_def run_file_def main_def

subsection \<open>Parsing\<close>

lemma parse_loop_append:
  "parse_loop today (xs @ ys) pd = parse_loop today ys (parse_loop today xs pd)"
  by (induction xs arbitrary: pd) (simp_all add: Let_def)

text \<open>
  Claim C6, as amended. The claim says that an event whose kind tag is not one of the
  supported kinds is rejected with a classification error. The program has no such
  error: an event whose operation type is none of \<^verbatim>\<open>INSERT\<close>,
  \<^verbatim>\<open>UPDATE_ADDRESS\<close> and \<^verbatim>\<open>UPDATE_NAME_ADDRESS\<close> matches no branch of the loop
  and is skipped, so the parsed batch is the one of the file without that event.
\<close>

theorem unknown_kind_skipped:
  assumes "get_operation_type r \<notin> {''INSERT'', ''UPDATE_ADDRESS'', ''UPDATE_NAME_ADDRESS''}"
  shows "parse_employee_data today (Loaded (before @ [r] @ after)) =
         parse_employee_data today (Loaded (before @ after))"
  using assms by (simp add: parse_employee_data_def parse_loop_append Let_def)

theorem unknown_kind_skipped_witness:
  "get_operation_type (event ''DELETE'' ana_diaz)
     \<notin> {''INSERT'', ''UPDATE_ADDRESS'', ''UPDATE_NAME_ADDRESS''} \<and>
   parse_employee_data 0
     (Loaded ([event ''INSERT'' ana_diaz] @ [event ''DELETE'' ana_diaz]
                @ [event ''UPDATE_ADDRESS'' to_cusco])) =
   parse_employee_data 0
     (Loaded ([event ''INSERT'' ana_diaz] @ [event ''UPDATE_ADDRESS'' to_cusco]))"
proof -
  have h: "get_operation_type (event ''DELETE'' ana_diaz)
             \<notin> {''INSERT'', ''UPDATE_ADDRESS'', ''UPDATE_NAME_ADDRESS''}"
    by (simp add: event_def get_operation_type_def)
  show ?thesis
    using h unknown_kind_skipped
            [OF h, of 0 "[event ''INSERT'' ana_diaz]" "[event ''UPDATE_ADDRESS'' to_cusco]"]
    by simp
qed

text \<open>
  Against claim C6 as stated: a file whose only event has the kind \<^verbatim>\<open>DELETE\<close> is
  parsed without any error, into three empty lists.
\<close>

theorem unknown_kind_not_rejected:
  "get_operation_type (event ''DELETE'' ana_diaz)
     \<notin> {''INSERT'', ''UPDATE_ADDRESS'', ''UPDATE_NAME_ADDRESS''} \<and>
   parse_employee_data (date 2025 8 13) (Loaded [event ''DELETE'' ana_diaz]) =
     Inr \<lparr> new_employees = [], address_updates = [], name_and_address_updates = [] \<rparr>"
  by (simp add: parse_employee_data_def event_def get_operation_type_def)

lemma parse_loop_lists:
  "new_employees (parse_loop today evs pd) =
     new_employees pd
       @ map (\<lambda>r. extract_new_employee_data today (employee_data r)) (of_kind ''INSERT'' evs)"
  "address_updates (parse_loop today evs pd) =
     address_updates pd
       @ map (\<lambda>r. extract_address_update_data today (employee_data r))
             (of_kind ''UPDATE_ADDRESS'' evs)"
  "name_and_address_updates (parse_loop today evs pd) =
     name_and_address_updates pd
       @ map (\<lambda>r. extract_name_address_update_data today (employee_data r))
             (of_kind ''UPDATE_NAME_ADDRESS'' evs)"
  by (induction evs arbitrary: pd; simp add: Let_def of_kind_def)+

subsection \<open>The order of processing\<close>

lemma apply_in_order_append:
  "apply_in_order ok now today (xs @ ys) rows =
     (case apply_in_order ok now today xs rows of
        Inl e \<Rightarrow> Inl e
      | Inr rows' \<Rightarrow> apply_in_order ok now today ys rows')"
  by (induction xs arbitrary: rows) (simp_all split: sum.splits)

text \<open>Each of the three loops applies its list in order; the counter plays no part.\<close>

lemma insert_loop_in_order:
  "map_sum id snd
     (insert_loop ok now
        (map (\<lambda>r. extract_new_employee_data today (employee_data r)) (of_kind ''INSERT'' evs))
        c rows) =
   apply_in_order ok now today (of_kind ''INSERT'' evs) rows"
  by (induction evs arbitrary: c rows)
     (simp_all add: of_kind_def apply_event_def Let_def split: sum.splits)

lemma address_loop_in_order:
  "map_sum id snd
     (address_loop ok now
        (map (\<lambda>r. extract_address_update_data today (employee_data r))
             (of_kind ''UPDATE_ADDRESS'' evs))
        c rows) =
   apply_in_order ok now today (of_kind ''UPDATE_ADDRESS'' evs) rows"
  by (induction evs arbitrary: c rows)
     (auto simp add: of_kind_def apply_event_def Let_def split: sum.splits)

lemma name_address_loop_in_order:
  "map_sum id snd
     (name_address_loop ok now
        (map (\<lambda>r. extract_name_address_update_data today (employee_data r))
             (of_kind ''UPDATE_NAME_ADDRESS'' evs))
        c rows) =
   apply_in_order ok now today (of_kind ''UPDATE_NAME_ADDRESS'' evs) rows"
  by (induction evs arbitrary: c rows)
     (auto simp add: of_kind_def apply_event_def Let_def split: sum.splits)

text \<open>
  Claim C2, as amended. The claim says that the events of a batch are applied in the
  order of the input whatever their kind. The program groups them by kind first: what
  \<^verbatim>\<open>set_employee\<close> does with a parsed file is what the specification's coordinator
  does with all \<^verbatim>\<open>INSERT\<close> events, then all \<^verbatim>\<open>UPDATE_ADDRESS\<close> events, then all
  \<^verbatim>\<open>UPDATE_NAME_ADDRESS\<close> events, each group in the order of the input, every event
  applied to the table the one before left, the whole in one transaction.
\<close>

theorem set_employee_order:
  "\<exists>pd. parse_employee_data today (Loaded events) = Inr pd \<and>
        set_employee ok now pd rows =
          run_in_input_order ok now today
            (of_kind ''INSERT'' events @ of_kind ''UPDATE_ADDRESS'' events
               @ of_kind ''UPDATE_NAME_ADDRESS'' events) rows"
proof -
  let ?pd = "parse_loop today events
               \<lparr> new_employees = [], address_updates = [], name_and_address_updates = [] \<rparr>"
  let ?I = "insert_loop ok now (new_employees ?pd) 0 rows"
  have p: "parse_employee_data today (Loaded events) = Inr ?pd"
    by (simp add: parse_employee_data_def)
  have i: "map_sum id snd ?I = apply_in_order ok now today (of_kind ''INSERT'' events) rows"
    using insert_loop_in_order [of ok now today events 0 rows] by (simp add: parse_loop_lists)
  have a: "map_sum id snd (address_loop ok now (address_updates ?pd) 0 rows1) =
           apply_in_order ok now today (of_kind ''UPDATE_ADDRESS'' events) rows1" for rows1
    using address_loop_in_order [of ok now today events 0 rows1] by (simp add: parse_loop_lists)
  have n: "map_sum id snd (name_address_loop ok now (name_and_address_updates ?pd) 0 rows2) =
           apply_in_order ok now today (of_kind ''UPDATE_NAME_ADDRESS'' events) rows2" for rows2
    using name_address_loop_in_order [of ok now today events 0 rows2]
    by (simp add: parse_loop_lists)
  have "set_employee ok now ?pd rows =
          run_in_input_order ok now today
            (of_kind ''INSERT'' events @ of_kind ''UPDATE_ADDRESS'' events
               @ of_kind ''UPDATE_NAME_ADDRESS'' events) rows"
  proof (cases ?I)
    case (Inl e)
    with i show ?thesis
      by (simp add: set_employee_def run_in_input_order_def apply_in_order_append
            insert_new_employees_def flip: i)
  next
    case I: (Inr res1)
    obtain c1 rows1 where res1: "res1 = (c1, rows1)" by (cases res1)
    let ?A = "address_loop ok now (address_updates ?pd) 0 rows1"
    show ?thesis
    proof (cases ?A)
      case (Inl e)
      with I res1 show ?thesis
        by (simp add: set_employee_def run_in_input_order_def apply_in_order_append
              insert_new_employees_def update_employee_addresses_def flip: i a)
    next
      case A: (Inr res2)
      obtain c2 rows2 where res2: "res2 = (c2, rows2)" by (cases res2)
      let ?N = "name_address_loop ok now (name_and_address_updates ?pd) 0 rows2"
      show ?thesis
      proof (cases ?N)
        case (Inl e)
        with I res1 A res2 show ?thesis
          by (simp add: set_employee_def run_in_input_order_def apply_in_order_append
                insert_new_employees_def update_employee_addresses_def
                update_employee_names_addresses_def flip: i a n)
      next
        case (Inr res3)
        with I res1 A res2 show ?thesis
          by (cases res3)
             (simp add: set_employee_def run_in_input_order_def apply_in_order_append
                insert_new_employees_def update_employee_addresses_def
                update_employee_names_addresses_def flip: i a n)
      qed
    qed
  qed
  with p show ?thesis by blast
qed

text \<open>
  Against claim C2 as stated: in a file whose first event changes the address of E1
  and whose second event inserts E1, the program applies the second event first, so the
  change finds the inserted row and makes a second version. Applied in the order of the
  input, the change finds no row and only the insert takes effect.
\<close>

theorem later_insert_applied_first:
  "map city (snd (set_employee unconstrained 0
       (projr (parse_employee_data (date 2025 8 13) (Loaded scenario_BA))) []))
     = [Some ''Lima'', Some ''Cusco''] \<and>
   map city (snd (run_in_input_order unconstrained 0 (date 2025 8 13) scenario_BA []))
     = [Some ''Lima'']"
  by (simp add: example_defs parse_defs store_defs run_in_input_order_def apply_event_def)

subsection \<open>An update for an entity without rows\<close>

lemma close_sql_none:
  "\<forall>r \<in> set rows. \<not> (sql_eq (employee_id r) eid \<and> is_current r) \<Longrightarrow>
   close_sql now eff eid rows = rows"
  by (auto simp: close_sql_def intro!: map_idI)

lemma select_sql_none:
  "\<forall>r \<in> set rows. \<not> (sql_eq (employee_id r) eid \<and> expiry_date r = eff - 1) \<Longrightarrow>
   select_sql eid eff rows = None"
  by (simp add: select_sql_def filter_False)

lemma scd2_step_skip:
  assumes "\<forall>r \<in> set rows. sql_eq (employee_id r) eid \<longrightarrow>
             \<not> is_current r \<and> expiry_date r \<noteq> eff - 1"
  shows "scd2_step ok now eid eff insert_params rows = Inr (False, rows)"
proof -
  have c: "close_sql now eff eid rows = rows"
    using assms by (intro close_sql_none) blast
  have s: "select_sql eid eff rows = None"
    using assms by (intro select_sql_none) blast
  show ?thesis by (simp add: scd2_step_def c s execute_update_def)
qed

text \<open>
  Claim C1, as amended. The claim says that a batch with a new entity E2 and a change
  for an entity E3 without a current row fails and is rolled back. The program raises
  nothing for E3: when E3 has no current row and no row that expires the day before
  the change, \<^verbatim>\<open>fetchone\<close> gives \<^verbatim>\<open>None\<close> and the change is skipped. The batch
  commits with the row of E2 appended, unless the store itself rejects that row, in
  which case it is rolled back.
\<close>

theorem missing_current_row_skipped:
  assumes "\<forall>r \<in> set rows. sql_eq (employee_id r) (ed_employee_id e3) \<longrightarrow>
             \<not> is_current r \<and> expiry_date r \<noteq> today - 1"
    and "ed_employee_id e2 \<noteq> ed_employee_id e3"
  shows "\<exists>pd. parse_employee_data today
                (Loaded [event ''INSERT'' e2, event ''UPDATE_ADDRESS'' e3]) = Inr pd \<and>
          set_employee ok now pd rows =
            (let e2_row = (insert_sql now (extract_new_employee_data today e2))
                            \<lparr>employee_key := next_employee_key rows\<rparr>
             in if ok (rows @ [e2_row]) then (True, rows @ [e2_row]) else (False, rows))"
proof -
  let ?new = "(insert_sql now (extract_new_employee_data today e2))
                \<lparr>employee_key := next_employee_key rows\<rparr>"
  let ?u = "extract_address_update_data today e3"
  have id_new: "employee_id ?new = ed_employee_id e2"
    by (simp add: insert_sql_def extract_new_employee_data_def Let_def)
  have "\<forall>r \<in> set (rows @ [?new]). sql_eq (employee_id r) (au_employee_id ?u) \<longrightarrow>
          \<not> is_current r \<and> expiry_date r \<noteq> au_effective_date ?u - 1"
    using assms id_new by (auto simp: extract_address_update_data_def sql_eq_def Let_def)
  then have skip: "address_step ok now ?u (rows @ [?new]) = Inr (False, rows @ [?new])"
    unfolding address_step_def by (rule scd2_step_skip)
  show ?thesis
    by (simp add: parse_employee_data_def event_def get_operation_type_def Let_def
          set_employee_def insert_new_employees_def update_employee_addresses_def
          update_employee_names_addresses_def execute_insert_def skip)
qed

text \<open>The table after scenario A, row by row.\<close>

lemma after_A_rows:
  "after_A =
     [\<lparr> employee_key = 1, employee_id = Some ''E1'', first_name = Some ''Ana'',
        last_name = Some ''Diaz'', full_name = Some ''Ana Diaz'', email_address = None,
        phone_number = None, birth_date = None, gender = None, ethnicity = None,
        nationality = None, marital_status = None,
        address_line1 = Some ''Av. Arequipa 100'', address_line2 = None,
        city = Some ''Lima'', state_province = None, postal_code = None,
        country_code = None, hire_date = None, termination_date = None, is_active = True,
        effective_date = date 2025 8 12, expiry_date = date 9999 12 31, is_current = True,
        created_date = 0, updated_date = 0 \<rparr>]"
  by (simp add: example_defs parse_defs store_defs validate_data_quality_def dup_check_sql_def
        date_check_sql_def)

theorem missing_current_row_skipped_witness:
  "map employee_id after_A = [Some ''E1''] \<and>
   ed_employee_id e3_change = Some ''E3'' \<and>
   ed_employee_id e2_new \<noteq> ed_employee_id e3_change \<and>
   (\<exists>pd. parse_employee_data (date 2025 8 13)
            (Loaded [event ''INSERT'' e2_new, event ''UPDATE_ADDRESS'' e3_change]) = Inr pd \<and>
         set_employee unconstrained 0 pd after_A =
           (let e2_row = (insert_sql 0 (extract_new_employee_data (date 2025 8 13) e2_new))
                           \<lparr>employee_key := next_employee_key after_A\<rparr>
            in if unconstrained (after_A @ [e2_row]) then (True, after_A @ [e2_row])
               else (False, after_A)))"
proof -
  have h1: "\<forall>r \<in> set after_A. sql_eq (employee_id r) (ed_employee_id e3_change) \<longrightarrow>
              \<not> is_current r \<and> expiry_date r \<noteq> date 2025 8 13 - 1"
    by (simp add: after_A_rows e3_change_def sql_eq_def)
  have h2: "ed_employee_id e2_new \<noteq> ed_employee_id e3_change"
    by (simp add: example_defs)
  have h3: "map employee_id after_A = [Some ''E1'']" "ed_employee_id e3_change = Some ''E3''"
    by (simp_all add: after_A_rows e3_change_def)
  show ?thesis
    using h2 h3 missing_current_row_skipped [OF h1 h2, of unconstrained 0] by blast
qed

text \<open>
  Against claim C1 as stated: scenario C on the empty table commits, and the table
  then holds the row of E2.
\<close>

theorem scenario_C_commits:
  "fst (set_employee unconstrained 0
          (projr (parse_employee_data (date 2025 8 13) (Loaded scenario_C))) []) = True \<and>
   map employee_id
     (snd (set_employee unconstrained 0
             (projr (parse_employee_data (date 2025 8 13) (Loaded scenario_C))) []))
     = [Some ''E2'']"
  by (simp add: example_defs parse_defs store_defs)

subsection \<open>Inserting an entity that is already there\<close>

text \<open>
  Claim C5 says that the insert of an entity that already has a current row fails
  with a duplicate-entity error. The insert function looks nothing up before it
  inserts, although the program's own validator counts an entity with two current rows
  as a data quality issue and the two update functions close the current rows first.
  Here the table after scenario A holds a current row of E1; a second insert of E1
  returns the count 1 and no error, E1 then has two current rows, and the validator's
  duplicate check finds them.
\<close>

theorem double_insert_succeeds:
  "map employee_id after_A = [Some ''E1''] \<and> map is_current after_A = [True] \<and>
   \<not> isl (insert_new_employees unconstrained 1
             [extract_new_employee_data (date 2025 8 13) ana_diaz] after_A) \<and>
   fst (projr (insert_new_employees unconstrained 1
             [extract_new_employee_data (date 2025 8 13) ana_diaz] after_A)) = 1 \<and>
   map employee_id (snd (projr (insert_new_employees unconstrained 1
             [extract_new_employee_data (date 2025 8 13) ana_diaz] after_A)))
     = [Some ''E1'', Some ''E1''] \<and>
   map is_current (snd (projr (insert_new_employees unconstrained 1
             [extract_new_employee_data (date 2025 8 13) ana_diaz] after_A)))
     = [True, True] \<and>
   dup_check_sql (snd (projr (insert_new_employees unconstrained 1
             [extract_new_employee_data (date 2025 8 13) ana_diaz] after_A)))
     = [(Some ''E1'', 2)]"
  by (simp add: after_A_rows ana_diaz_def parse_defs store_defs dup_check_sql_def)

text \<open>
  Claim C3 says that no entity ever has two current rows. The program's own validator
  counts an entity with two current rows as a data quality issue, and the two update
  functions close the current rows before they insert one; the insert function does
  not. Here the file of scenario A is run a second time, on the table the first run
  left: the run commits, E1 has two current rows, and the validator reports it.
\<close>

theorem rerun_gives_two_current_rows:
  "map employee_id after_A = [Some ''E1''] \<and> map is_current after_A = [True] \<and>
   fst (run_file 1 (date 2025 8 13) scenario_A after_A) = Quality_Issues_Detected \<and>
   map employee_id (snd (run_file 1 (date 2025 8 13) scenario_A after_A))
     = [Some ''E1'', Some ''E1''] \<and>
   map is_current (snd (run_file 1 (date 2025 8 13) scenario_A after_A)) = [True, True]"
  by (simp add: after_A_rows ana_diaz_def scenario_A_def run_file_def main_def parse_defs
        store_defs validate_data_quality_def dup_check_sql_def date_check_sql_def)

subsection \<open>Closing a row\<close>

lemma date_day_before: "date 2025 8 13 - 1 = date 2025 8 12"
  by (simp add: date_defs)

text \<open>
  Claim C4 says that every row has its effective date before its expiry date. The
  program's own validator counts a row whose effective date is not before its expiry
  date as an invalid date range, yet closing sets the expiry date to the day before the
  change without looking at the row's effective date. Here scenario B is run the day
  after scenario A: the closed row is effective on 2025-08-12 and expires on
  2025-08-12, the run commits, and the validator reports the row.
\<close>

theorem next_day_change_inverts_range:
  "map effective_date after_A = [date 2025 8 12] \<and>
   fst (run_file 1 (date 2025 8 13) scenario_B after_A) = Quality_Issues_Detected \<and>
   map effective_date (snd (run_file 1 (date 2025 8 13) scenario_B after_A))
     = [date 2025 8 12, date 2025 8 13] \<and>
   map expiry_date (snd (run_file 1 (date 2025 8 13) scenario_B after_A))
     = [date 2025 8 12, date 9999 12 31] \<and>
   dup_check_sql (snd (run_file 1 (date 2025 8 13) scenario_B after_A)) = [] \<and>
   date_check_sql (snd (run_file 1 (date 2025 8 13) scenario_B after_A))
     = [(Some ''E1'', date 2025 8 12, date 2025 8 12)]"
  by (simp add: after_A_rows to_cusco_def scenario_B_def run_file_def main_def parse_defs
        store_defs date_defs validate_data_quality_def dup_check_sql_def date_check_sql_def)

text \<open>
  The same on the empty table with one file that holds the insert and the change: the
  closed row expires the day before it becomes effective.
\<close>

lemma same_day_change_inverts_range:
  "fst (run_file 0 (date 2025 8 13) scenario_AB []) = Quality_Issues_Detected \<and>
   map effective_date (snd (run_file 0 (date 2025 8 13) scenario_AB []))
     = [date 2025 8 13, date 2025 8 13] \<and>
   map expiry_date (snd (run_file 0 (date 2025 8 13) scenario_AB []))
     = [date 2025 8 12, date 9999 12 31]"
  by (simp add: example_defs parse_defs store_defs date_defs validate_data_quality_def
        dup_check_sql_def date_check_sql_def)

subsection \<open>Scenario B\<close>

lemma close_sql_append:
  "close_sql now eff eid (xs @ ys) = close_sql now eff eid xs @ close_sql now eff eid ys"
  by (simp add: close_sql_def)

lemma select_sql_single:
  assumes "\<forall>x \<in> set (xs @ ys). \<not> (sql_eq (employee_id x) eid \<and> expiry_date x = eff - 1)"
    and "sql_eq (employee_id r) eid" "expiry_date r = eff - 1"
  shows "select_sql eid eff (xs @ [r] @ ys) = Some r"
proof -
  have "filter (\<lambda>r. sql_eq (employee_id r) eid \<and> expiry_date r = eff - 1) xs = []"
       "filter (\<lambda>r. sql_eq (employee_id r) eid \<and> expiry_date r = eff - 1) ys = []"
    using assms(1) by (auto simp: filter_empty_conv)
  then show ?thesis using assms(2,3) by (simp add: select_sql_def)
qed

text \<open>
  Claim C7. E1 has a single current row \<open>r\<close>, which holds Ana Diaz of Lima; the
  table may hold other rows before and after it, rows of other entities and old
  versions of E1 that do not expire on 2025-08-12. The address change of
  scenario B, effective 2025-08-13, is accepted by the store. Then the row is closed with
  the expiry date 2025-08-12 and is no longer current, and one row is appended that
  carries Ana and Diaz forward, has the city Cusco, is effective 2025-08-13, is current
  and expires on the sentinel date 9999-12-31.
\<close>

theorem scenario_B_closes_and_appends:
  fixes r :: row and now :: nat and before after :: "row list"
  defines "closed \<equiv> close_set now (date 2025 8 13) r"
  defines "u \<equiv> extract_address_update_data (date 2025 8 13) to_cusco"
  defines "new \<equiv> (address_insert_params now closed u)
                   \<lparr>employee_key := next_employee_key (before @ [closed] @ after)\<rparr>"
  assumes r: "employee_id r = Some ''E1''" "is_current r" "first_name r = Some ''Ana''"
             "last_name r = Some ''Diaz''" "city r = Some ''Lima''"
    and others: "\<forall>x \<in> set (before @ after).
                   employee_id x = Some ''E1'' \<longrightarrow>
                     \<not> is_current x \<and> expiry_date x \<noteq> date 2025 8 12"
    and ok: "ok (before @ [closed] @ after)" "ok (before @ [closed] @ after @ [new])"
  shows "update_employee_addresses ok now [u] (before @ [r] @ after)
           = Inr (1, before @ [closed] @ after @ [new]) \<and>
         expiry_date closed = date 2025 8 12 \<and> \<not> is_current closed \<and>
         first_name new = Some ''Ana'' \<and> last_name new = Some ''Diaz'' \<and>
         city new = Some ''Cusco'' \<and> effective_date new = date 2025 8 13 \<and>
         is_current new \<and> expiry_date new = date 9999 12 31"
proof -
  have u: "au_employee_id u = Some ''E1''" "au_effective_date u = date 2025 8 13"
          "au_city u = Some ''Cusco''"
    by (simp_all add: u_def extract_address_update_data_def to_cusco_def get_def)
  have nomatch: "\<forall>x \<in> set before \<union> set after.
                   sql_eq (employee_id x) (Some ''E1'') \<longrightarrow>
                     \<not> is_current x \<and> expiry_date x \<noteq> date 2025 8 13 - 1"
    using others by (auto simp: sql_eq_def date_day_before)
  have cb: "close_sql now (date 2025 8 13) (Some ''E1'') before = before"
    and ca: "close_sql now (date 2025 8 13) (Some ''E1'') after = after"
    using nomatch by (auto intro!: close_sql_none)
  have cr: "close_sql now (date 2025 8 13) (Some ''E1'') [r] = [closed]"
    using r by (simp add: close_sql_def sql_eq_def closed_def)
  have close: "close_sql now (date 2025 8 13) (Some ''E1'') (before @ [r] @ after)
                 = before @ [closed] @ after"
    by (simp only: close_sql_append cb ca cr)
  have sel: "select_sql (Some ''E1'') (date 2025 8 13) (before @ [closed] @ after) = Some closed"
  proof (rule select_sql_single)
    show "\<forall>x\<in>set (before @ after).
            \<not> (sql_eq (employee_id x) (Some ''E1'') \<and> expiry_date x = date 2025 8 13 - 1)"
      using nomatch by auto
    show "sql_eq (employee_id closed) (Some ''E1'')"
      using r by (simp add: closed_def close_set_def sql_eq_def)
    show "expiry_date closed = date 2025 8 13 - 1"
      by (simp add: closed_def close_set_def)
  qed
  have step: "address_step ok now u (before @ [r] @ after)
                = Inr (True, before @ [closed] @ after @ [new])"
    using ok
    by (simp add: address_step_def scd2_step_def u close [simplified] sel [simplified]
          execute_update_def execute_insert_def new_def)
  have run: "update_employee_addresses ok now [u] (before @ [r] @ after)
               = Inr (1, before @ [closed] @ after @ [new])"
    by (simp add: update_employee_addresses_def step [simplified])
  have fields: "first_name new = Some ''Ana'' \<and> last_name new = Some ''Diaz'' \<and>
         city new = Some ''Cusco'' \<and> effective_date new = date 2025 8 13 \<and>
         is_current new \<and> expiry_date new = date 9999 12 31"
    using r u
    by (simp add: new_def closed_def close_set_def address_insert_params_def infinite_date_def)
  have "expiry_date closed = date 2025 8 12 \<and> \<not> is_current closed"
    by (simp add: closed_def close_set_def date_day_before)
  with run fields show ?thesis by blast
qed

theorem scenario_B_closes_and_appends_witness:
  "employee_id (hd after_A) = Some ''E1'' \<and> is_current (hd after_A) \<and>
   first_name (hd after_A) = Some ''Ana'' \<and> last_name (hd after_A) = Some ''Diaz'' \<and>
   city (hd after_A) = Some ''Lima'' \<and>
   unconstrained ([] @ [close_set 1 (date 2025 8 13) (hd after_A)] @ []) \<and>
   update_employee_addresses unconstrained 1
     [extract_address_update_data (date 2025 8 13) to_cusco] ([] @ [hd after_A] @ [])
     = Inr (1, [] @ [close_set 1 (date 2025 8 13) (hd after_A)] @ [] @
               [(address_insert_params 1 (close_set 1 (date 2025 8 13) (hd after_A))
                   (extract_address_update_data (date 2025 8 13) to_cusco))
                  \<lparr>employee_key := 2\<rparr>])"
proof -
  have r: "employee_id (hd after_A) = Some ''E1''" "is_current (hd after_A)"
    "first_name (hd after_A) = Some ''Ana''" "last_name (hd after_A) = Some ''Diaz''"
    "city (hd after_A) = Some ''Lima''"
    by (simp_all add: after_A_rows)
  have o: "\<forall>x \<in> set ([] @ []).
             employee_id x = Some ''E1'' \<longrightarrow>
               \<not> is_current x \<and> expiry_date x \<noteq> date 2025 8 12" by simp
  have k: "next_employee_key ([] @ [close_set 1 (date 2025 8 13) (hd after_A)] @ []) = 2"
    by (simp add: next_employee_key_def close_set_def after_A_rows)
  show ?thesis
    using r o k scenario_B_closes_and_appends [OF r o, of unconstrained 1]
    by (simp add: unconstrained_def)
qed

subsection \<open>The validator\<close>

lemma filter_eq_distinct:
  "distinct xs \<Longrightarrow> x \<in> set xs \<Longrightarrow> filter (\<lambda>y. y = x) xs = [x]"
  by (induction xs) (auto simp: filter_empty_conv)

lemma dup_check_sql_count:
  "dup_check_sql rows =
     map (\<lambda>e. (e, current_count e rows))
       (filter (\<lambda>e. 1 < current_count e rows)
          (remdups (map employee_id (filter is_current rows))))"
  by (simp add: dup_check_sql_def current_count_def filter_map comp_def)

lemma current_count_pos:
  "0 < current_count e rows \<longleftrightarrow> e \<in> set (map employee_id (filter is_current rows))"
  by (auto simp: current_count_def filter_empty_conv)

lemma dup_check_sql_one:
  assumes two: "current_count e0 rows = 2"
    and rest: "\<forall>r \<in> set rows. employee_id r \<noteq> e0 \<longrightarrow> current_count (employee_id r) rows \<le> 1"
  shows "dup_check_sql rows = [(e0, 2)]"
proof -
  let ?ids = "remdups (map employee_id (filter is_current rows))"
  have mem: "e0 \<in> set ?ids"
    using two current_count_pos [of e0 rows] by simp
  have "filter (\<lambda>e. 1 < current_count e rows) ?ids = filter (\<lambda>e. e = e0) ?ids"
  proof (rule filter_cong [OF refl])
    fix e assume "e \<in> set ?ids"
    then obtain r where "r \<in> set rows" "employee_id r = e" by auto
    with rest two show "(1 < current_count e rows) = (e = e0)" by fastforce
  qed
  also have "\<dots> = [e0]"
    using mem by (intro filter_eq_distinct) simp_all
  finally show ?thesis
    by (simp add: dup_check_sql_count two)
qed

text \<open>
  Claim C9. A file has been parsed and its batch committed, and in the committed table
  exactly one entity, \<open>e0\<close>, has two current rows. Then the duplicate check gives one
  result row, the entity with its count of two; the validator returns \<^verbatim>\<open>False\<close>;
  and \<^verbatim>\<open>main\<close>, which calls the validator only after \<^verbatim>\<open>set_employee\<close> has
  committed, reports the issue and leaves the committed table as it is.
\<close>

theorem validator_reports_one_duplicate:
  assumes parse: "parse_employee_data today file = Inr pd"
    and commit: "set_employee ok now pd rows = (True, rows')"
    and two: "current_count e0 rows' = 2"
    and rest: "\<forall>r \<in> set rows'. employee_id r \<noteq> e0 \<longrightarrow>
                 current_count (employee_id r) rows' \<le> 1"
  shows "dup_check_sql rows' = [(e0, 2)] \<and> \<not> validate_data_quality rows' \<and>
         main ok now today True file rows = (Quality_Issues_Detected, rows')"
proof -
  have d: "dup_check_sql rows' = [(e0, 2)]"
    using two rest by (rule dup_check_sql_one)
  then have v: "\<not> validate_data_quality rows'"
    by (simp add: validate_data_quality_def)
  have "main ok now today True file rows = (Quality_Issues_Detected, rows')"
    by (simp add: main_def parse commit v)
  with d v show ?thesis by blast
qed

lemma after_rerun_rows:
  "after_rerun =
     [\<lparr> employee_key = 1, employee_id = Some ''E1'', first_name = Some ''Ana'',
        last_name = Some ''Diaz'', full_name = Some ''Ana Diaz'', email_address = None,
        phone_number = None, birth_date = None, gender = None, ethnicity = None,
        nationality = None, marital_status = None,
        address_line1 = Some ''Av. Arequipa 100'', address_line2 = None,
        city = Some ''Lima'', state_province = None, postal_code = None,
        country_code = None, hire_date = None, termination_date = None, is_active = True,
        effective_date = date 2025 8 12, expiry_date = date 9999 12 31, is_current = True,
        created_date = 0, updated_date = 0 \<rparr>,
      \<lparr> employee_key = 2, employee_id = Some ''E1'', first_name = Some ''Ana'',
        last_name = Some ''Diaz'', full_name = Some ''Ana Diaz'', email_address = None,
        phone_number = None, birth_date = None, gender = None, ethnicity = None,
        nationality = None, marital_status = None,
        address_line1 = Some ''Av. Arequipa 100'', address_line2 = None,
        city = Some ''Lima'', state_province = None, postal_code = None,
        country_code = None, hire_date = None, termination_date = None, is_active = True,
        effective_date = date 2025 8 13, expiry_date = date 9999 12 31, is_current = True,
        created_date = 1, updated_date = 1 \<rparr>]"
  by (simp add: after_rerun_def after_A_rows ana_diaz_def scenario_A_def run_file_def main_def
        parse_defs store_defs validate_data_quality_def dup_check_sql_def date_check_sql_def)

theorem validator_reports_one_duplicate_witness:
  "current_count (Some ''E1'') after_rerun = 2 \<and>
   dup_check_sql after_rerun = [(Some ''E1'', 2)] \<and>
   \<not> validate_data_quality after_rerun \<and>
   main unconstrained 1 (date 2025 8 13) True (Loaded scenario_A) after_A =
     (Quality_Issues_Detected, after_rerun)"
proof -
  let ?pd = "\<lparr> new_employees = [extract_new_employee_data (date 2025 8 13) ana_diaz],
               address_updates = [], name_and_address_updates = [] \<rparr>"
  have p: "parse_employee_data (date 2025 8 13) (Loaded scenario_A) = Inr ?pd"
    by (simp add: scenario_A_def parse_employee_data_def event_def get_operation_type_def)
  have c: "set_employee unconstrained 1 ?pd after_A = (True, after_rerun)"
    by (simp add: after_rerun_def run_file_def main_def p set_employee_def
          insert_new_employees_def update_employee_addresses_def
          update_employee_names_addresses_def execute_insert_def unconstrained_def
          split: if_splits)
  have two: "current_count (Some ''E1'') after_rerun = 2"
    by (simp add: current_count_def after_rerun_rows)
  have rest: "\<forall>r \<in> set after_rerun. employee_id r \<noteq> Some ''E1'' \<longrightarrow>
                current_count (employee_id r) after_rerun \<le> 1"
    by (simp add: after_rerun_rows)
  show ?thesis
    using two validator_reports_one_duplicate [OF p c two rest] by simp
qed

subsection \<open>One update step\<close>

lemma close_sql_closes: "closes_all_current now eff eid rows (close_sql now eff eid rows)"
  by (simp add: closes_all_current_def close_sql_def close_set_def)

lemma length_close_sql: "length (close_sql now eff eid rows) = length rows"
  by (simp add: close_sql_def)

text \<open>The fold of \<open>select_sql\<close> picks an element of largest key.\<close>

lemma fold_latest:
  "fold (\<lambda>a b. if employee_key b < employee_key a then a else b) rs r \<in> set (r # rs) \<and>
   (\<forall>x \<in> set (r # rs).
      employee_key x
        \<le> employee_key (fold (\<lambda>a b. if employee_key b < employee_key a then a else b) rs r))"
proof (induction rs arbitrary: r)
  case Nil
  show ?case by simp
next
  case (Cons a rs)
  show ?case
    using Cons.IH [of a] Cons.IH [of r] by (auto simp: not_less)
qed

lemma select_sql_latest:
  assumes "select_sql eid eff rows = Some s"
  shows "latest_closed eid eff rows s"
proof -
  let ?P = "\<lambda>r. sql_eq (employee_id r) eid \<and> expiry_date r = eff - 1"
  from assms obtain r rs where f: "filter ?P rows = r # rs"
    and s: "s = fold (\<lambda>a b. if employee_key b < employee_key a then a else b) rs r"
    by (auto simp: select_sql_def split: list.splits)
  from fold_latest [of rs r] s
  have mem: "s \<in> set (filter ?P rows)"
    and top: "\<forall>x \<in> set (filter ?P rows). employee_key x \<le> employee_key s"
    unfolding f by blast+
  from mem have "s \<in> set rows" "?P s" by auto
  moreover from top have "\<forall>s' \<in> set rows. ?P s' \<longrightarrow> employee_key s' \<le> employee_key s"
    by auto
  ultimately show ?thesis by (simp add: latest_closed_def)
qed

text \<open>What a step that raised nothing has done.\<close>

lemma scd2_step_result:
  assumes "scd2_step ok now eid eff insert_params rows = Inr (found, rows')"
  shows "if found
         then \<exists>s. select_sql eid eff (close_sql now eff eid rows) = Some s \<and>
                  rows' = close_sql now eff eid rows
                            @ [(insert_params s)\<lparr>employee_key :=
                                  next_employee_key (close_sql now eff eid rows)\<rparr>]
         else select_sql eid eff (close_sql now eff eid rows) = None \<and>
              rows' = close_sql now eff eid rows"
  using assms
  by (auto simp: scd2_step_def execute_update_def execute_insert_def Let_def
           split: if_splits option.splits sum.splits)

lemma select_sql_None_iff:
  "select_sql eid eff rows = None \<longleftrightarrow>
     (\<forall>s \<in> set rows. \<not> (sql_eq (employee_id s) eid \<and> expiry_date s = eff - 1))"
proof -
  have "select_sql eid eff rows = None \<longleftrightarrow>
          filter (\<lambda>r. sql_eq (employee_id r) eid \<and> expiry_date r = eff - 1) rows = []"
    by (simp add: select_sql_def split: list.splits)
  then show ?thesis by (simp add: filter_empty_conv)
qed

text \<open>
  Claim C10, for either update function. \<open>step\<close> is what the function does for one
  update. When the store accepts the close and the new version, the step raises
  nothing, and the table up to its old length is the old table with every current row
  of the entity closed: expiry date the day before the change, not current. No row
  limit applies. When a version was inserted (\<open>found\<close>), it is the one new row at the
  end, built from a snapshot \<open>s\<close> that is a row of the entity expiring the day before
  the change and has the largest key of all such rows; when none was inserted, the
  entity has no row expiring that day.
\<close>

theorem close_all_and_read_latest:
  assumes which:
      "step = address_step ok now u rows \<and>
         eid = au_employee_id u \<and> eff = au_effective_date u \<and>
         insert_params = (\<lambda>s. address_insert_params now s u)
       \<or> step = name_address_step ok now v rows \<and>
         eid = nu_employee_id v \<and> eff = nu_effective_date v \<and>
         insert_params = (\<lambda>s. name_address_insert_params now s v)"
    and close_ok: "ok (close_sql now eff eid rows)"
    and insert_ok:
      "\<forall>s \<in> set (close_sql now eff eid rows).
         ok (close_sql now eff eid rows
               @ [(insert_params s)\<lparr>employee_key :=
                     next_employee_key (close_sql now eff eid rows)\<rparr>])"
  shows "\<exists>found rows'.
           step = Inr (found, rows') \<and>
           closes_all_current now eff eid rows (take (length rows) rows') \<and>
           (if found
            then \<exists>s. latest_closed eid eff (take (length rows) rows') s \<and>
                     rows' = take (length rows) rows'
                               @ [(insert_params s)\<lparr>employee_key :=
                                     next_employee_key (take (length rows) rows')\<rparr>]
            else rows' = take (length rows) rows' \<and>
                 (\<forall>s \<in> set rows'. \<not> (sql_eq (employee_id s) eid \<and> expiry_date s = eff - 1)))"
proof -
  let ?rows1 = "close_sql now eff eid rows"
  from which have step: "step = scd2_step ok now eid eff insert_params rows"
    by (auto simp: address_step_def name_address_step_def)
  have upd: "execute_update ok ?rows1 rows = Inr ?rows1"
    using close_ok by (simp add: execute_update_def)
  have closed: "closes_all_current now eff eid rows ?rows1"
    by (rule close_sql_closes)
  show ?thesis
  proof (cases "select_sql eid eff ?rows1")
    case None
    then have none: "\<forall>s \<in> set ?rows1. \<not> (sql_eq (employee_id s) eid \<and> expiry_date s = eff - 1)"
      by (simp add: select_sql_None_iff)
    have "step = Inr (False, ?rows1)"
      by (simp add: step scd2_step_def upd None)
    with closed none show ?thesis
      by (intro exI [of _ False] exI [of _ ?rows1]) (simp add: length_close_sql)
  next
    case (Some s)
    let ?new = "(insert_params s)\<lparr>employee_key := next_employee_key ?rows1\<rparr>"
    from Some have latest: "latest_closed eid eff ?rows1 s"
      by (rule select_sql_latest)
    then have "s \<in> set ?rows1" by (simp add: latest_closed_def)
    with insert_ok have "ok (?rows1 @ [?new])" by blast
    then have "step = Inr (True, ?rows1 @ [?new])"
      by (simp add: step scd2_step_def upd Some execute_insert_def)
    moreover have "take (length rows) (?rows1 @ [?new]) = ?rows1"
      by (simp add: length_close_sql)
    ultimately show ?thesis
      using closed latest
      by (intro exI [of _ True] exI [of _ "?rows1 @ [?new]"]) auto
  qed
qed

lemma two_current_rows:
  "two_current =
     [\<lparr> employee_key = 1, employee_id = Some ''E1'', first_name = Some ''Ana'',
        last_name = Some ''Diaz'', full_name = Some ''Ana Diaz'', email_address = None,
        phone_number = None, birth_date = None, gender = None, ethnicity = None,
        nationality = None, marital_status = None,
        address_line1 = Some ''Av. Arequipa 100'', address_line2 = None,
        city = Some ''Lima'', state_province = None, postal_code = None,
        country_code = None, hire_date = None, termination_date = None, is_active = True,
        effective_date = date 2025 8 10, expiry_date = date 9999 12 31, is_current = True,
        created_date = 0, updated_date = 0 \<rparr>,
      \<lparr> employee_key = 2, employee_id = Some ''E1'', first_name = Some ''Ana Maria'',
        last_name = Some ''Diaz'', full_name = Some ''Ana Maria Diaz'', email_address = None,
        phone_number = None, birth_date = None, gender = None, ethnicity = None,
        nationality = None, marital_status = None,
        address_line1 = None, address_line2 = None,
        city = Some ''Lima'', state_province = None, postal_code = None,
        country_code = None, hire_date = None, termination_date = None, is_active = True,
        effective_date = date 2025 8 10, expiry_date = date 9999 12 31, is_current = True,
        created_date = 0, updated_date = 0 \<rparr>]"
  by (simp add: two_current_def ana_diaz_def ana_maria_def run_file_def main_def
        parse_defs store_defs validate_data_quality_def dup_check_sql_def date_check_sql_def)

lemma two_closed_step:
  "address_step unconstrained 1 (extract_address_update_data (date 2025 8 13) to_cusco)
     two_current = Inr (True, two_closed)"
  by (simp add: two_closed_def two_current_rows scenario_B_def to_cusco_def run_file_def
        main_def parse_defs store_defs date_defs validate_data_quality_def dup_check_sql_def
        date_check_sql_def)

lemma two_closed_columns:
  "map employee_key two_closed = [1, 2, 3]"
  "map first_name two_closed = [Some ''Ana'', Some ''Ana Maria'', Some ''Ana Maria'']"
  "map is_current two_closed = [False, False, True]"
  "map expiry_date two_closed = [date 2025 8 12, date 2025 8 12, date 9999 12 31]"
  by (simp_all add: two_closed_def two_current_rows scenario_B_def to_cusco_def run_file_def
        main_def parse_defs store_defs date_defs validate_data_quality_def dup_check_sql_def
        date_check_sql_def)

lemma two_renamed_step:
  "name_address_step unconstrained 1
     (extract_name_address_update_data (date 2025 8 13) to_cusco_quispe) two_current
     = Inr (True, two_renamed)"
  by (simp add: two_renamed_def two_current_rows to_cusco_quispe_def run_file_def
        main_def parse_defs store_defs date_defs validate_data_quality_def dup_check_sql_def
        date_check_sql_def)

lemma two_renamed_columns:
  "map employee_key two_renamed = [1, 2, 3]"
  "map first_name two_renamed = [Some ''Ana'', Some ''Ana Maria'', Some ''Ana Maria'']"
  "map last_name two_renamed = [Some ''Diaz'', Some ''Diaz'', Some ''Quispe'']"
  "map full_name two_renamed
     = [Some ''Ana Diaz'', Some ''Ana Maria Diaz'', Some ''Ana Maria Quispe'']"
  "map is_current two_renamed = [False, False, True]"
  "map expiry_date two_renamed = [date 2025 8 12, date 2025 8 12, date 9999 12 31]"
  by (simp_all add: two_renamed_def two_current_rows to_cusco_quispe_def run_file_def
        main_def parse_defs store_defs date_defs validate_data_quality_def dup_check_sql_def
        date_check_sql_def)

text \<open>
  The witness, once for each function: both current rows of E1 are closed, and the new
  version has the first name of the row with the larger key.
\<close>

theorem close_all_and_read_latest_witness:
  "address_step unconstrained 1 (extract_address_update_data (date 2025 8 13) to_cusco)
     two_current = Inr (True, two_closed) \<and>
   map employee_key two_closed = [1, 2, 3] \<and>
   map first_name two_closed = [Some ''Ana'', Some ''Ana Maria'', Some ''Ana Maria''] \<and>
   map is_current two_closed = [False, False, True] \<and>
   map expiry_date two_closed = [date 2025 8 12, date 2025 8 12, date 9999 12 31] \<and>
   closes_all_current 1 (date 2025 8 13) (Some ''E1'') two_current
     (take (length two_current) two_closed) \<and>
   (\<exists>s. latest_closed (Some ''E1'') (date 2025 8 13) (take (length two_current) two_closed) s \<and>
        two_closed = take (length two_current) two_closed
          @ [(address_insert_params 1 s (extract_address_update_data (date 2025 8 13) to_cusco))
               \<lparr>employee_key := next_employee_key (take (length two_current) two_closed)\<rparr>]) \<and>
   name_address_step unconstrained 1
     (extract_name_address_update_data (date 2025 8 13) to_cusco_quispe) two_current
     = Inr (True, two_renamed) \<and>
   map employee_key two_renamed = [1, 2, 3] \<and>
   map first_name two_renamed = [Some ''Ana'', Some ''Ana Maria'', Some ''Ana Maria''] \<and>
   map last_name two_renamed = [Some ''Diaz'', Some ''Diaz'', Some ''Quispe''] \<and>
   map is_current two_renamed = [False, False, True] \<and>
   map expiry_date two_renamed = [date 2025 8 12, date 2025 8 12, date 9999 12 31] \<and>
   closes_all_current 1 (date 2025 8 13) (Some ''E1'') two_current
     (take (length two_current) two_renamed) \<and>
   (\<exists>s. latest_closed (Some ''E1'') (date 2025 8 13) (take (length two_current) two_renamed) s \<and>
        two_renamed = take (length two_current) two_renamed
          @ [(name_address_insert_params 1 s
                (extract_name_address_update_data (date 2025 8 13) to_cusco_quispe))
               \<lparr>employee_key := next_employee_key (take (length two_current) two_renamed)\<rparr>])"
proof -
  let ?u = "extract_address_update_data (date 2025 8 13) to_cusco"
  let ?v = "extract_name_address_update_data (date 2025 8 13) to_cusco_quispe"
  have u: "au_employee_id ?u = Some ''E1''" "au_effective_date ?u = date 2025 8 13"
    by (simp_all add: extract_address_update_data_def to_cusco_def Let_def)
  have v: "nu_employee_id ?v = Some ''E1''" "nu_effective_date ?v = date 2025 8 13"
    by (simp_all add: extract_name_address_update_data_def to_cusco_quispe_def Let_def)
  have a: "address_step unconstrained 1 ?u two_current = address_step unconstrained 1 ?u two_current \<and>
             Some ''E1'' = au_employee_id ?u \<and> date 2025 8 13 = au_effective_date ?u \<and>
             (\<lambda>s. address_insert_params 1 s ?u) = (\<lambda>s. address_insert_params 1 s ?u)
           \<or> address_step unconstrained 1 ?u two_current = name_address_step unconstrained 1 ?v two_current \<and>
             Some ''E1'' = nu_employee_id ?v \<and> date 2025 8 13 = nu_effective_date ?v \<and>
             (\<lambda>s. address_insert_params 1 s ?u) = (\<lambda>s. name_address_insert_params 1 s ?v)"
    using u by simp
  have n: "name_address_step unconstrained 1 ?v two_current = address_step unconstrained 1 ?u two_current \<and>
             Some ''E1'' = au_employee_id ?u \<and> date 2025 8 13 = au_effective_date ?u \<and>
             (\<lambda>s. name_address_insert_params 1 s ?v) = (\<lambda>s. address_insert_params 1 s ?u)
           \<or> name_address_step unconstrained 1 ?v two_current = name_address_step unconstrained 1 ?v two_current \<and>
             Some ''E1'' = nu_employee_id ?v \<and> date 2025 8 13 = nu_effective_date ?v \<and>
             (\<lambda>s. name_address_insert_params 1 s ?v) = (\<lambda>s. name_address_insert_params 1 s ?v)"
    using v by simp
  have ok1: "unconstrained (close_sql 1 (date 2025 8 13) (Some ''E1'') two_current)"
    by (simp add: unconstrained_def)
  have ok2: "\<forall>s \<in> set (close_sql 1 (date 2025 8 13) (Some ''E1'') two_current).
         unconstrained (close_sql 1 (date 2025 8 13) (Some ''E1'') two_current
               @ [(f s)\<lparr>employee_key :=
                     next_employee_key (close_sql 1 (date 2025 8 13) (Some ''E1'') two_current)\<rparr>])" for f
    by (simp add: unconstrained_def)
  from close_all_and_read_latest [OF a ok1 ok2] two_closed_step
  have A: "closes_all_current 1 (date 2025 8 13) (Some ''E1'') two_current
     (take (length two_current) two_closed) \<and>
   (\<exists>s. latest_closed (Some ''E1'') (date 2025 8 13) (take (length two_current) two_closed) s \<and>
        two_closed = take (length two_current) two_closed
          @ [(address_insert_params 1 s ?u)
               \<lparr>employee_key := next_employee_key (take (length two_current) two_closed)\<rparr>])"
    by auto
  from close_all_and_read_latest [OF n ok1 ok2] two_renamed_step
  have N: "closes_all_current 1 (date 2025 8 13) (Some ''E1'') two_current
     (take (length two_current) two_renamed) \<and>
   (\<exists>s. latest_closed (Some ''E1'') (date 2025 8 13) (take (length two_current) two_renamed) s \<and>
        two_renamed = take (length two_current) two_renamed
          @ [(name_address_insert_params 1 s ?v)
               \<lparr>employee_key := next_employee_key (take (length two_current) two_renamed)\<rparr>])"
    by auto
  show ?thesis
    using A N two_closed_step two_closed_columns two_renamed_step two_renamed_columns
    by simp
qed

subsection \<open>What the new version carries forward\<close>

lemma extract_address_fields:
  "au_employee_id (extract_address_update_data today ed) = ed_employee_id ed"
  "au_effective_date (extract_address_update_data today ed) = today"
  by (simp_all add: extract_address_update_data_def Let_def)

text \<open>
  Claim C8, as amended. The claim says that an attribute absent from the event is
  carried forward from the closed row. For the address columns the program does the
  opposite: \<^verbatim>\<open>select_sql\<close> does not read them, and every one of the six comes from
  the event, so a key absent from the event's address gives \<^verbatim>\<open>NULL\<close> in the new
  row. For every address-change event that produces a new version, that version has
  the snapshot's value in the fourteen other columns and the event's value, or
  \<^verbatim>\<open>NULL\<close>, in each address column.
\<close>

theorem address_columns_from_event:
  assumes "address_step ok now (extract_address_update_data today ed) rows = Inr (True, rows')"
  shows "\<exists>s. select_sql (ed_employee_id ed) today
                (close_sql now today (ed_employee_id ed) rows) = Some s \<and>
             carried_forward s (last rows') \<and>
             address_of_payload (ed_address ed) (last rows')"
proof -
  let ?u = "extract_address_update_data today ed"
  from assms
  have "scd2_step ok now (ed_employee_id ed) today
          (\<lambda>s. address_insert_params now s ?u) rows = Inr (True, rows')"
    by (simp add: address_step_def extract_address_fields)
  from scd2_step_result [OF this] obtain s where
    s: "select_sql (ed_employee_id ed) today (close_sql now today (ed_employee_id ed) rows) = Some s"
    and l: "last rows' = (address_insert_params now s ?u)
              \<lparr>employee_key := next_employee_key (close_sql now today (ed_employee_id ed) rows)\<rparr>"
    by auto
  have "carried_forward s (last rows')"
    by (simp add: l carried_forward_def address_insert_params_def)
  moreover have "address_of_payload (ed_address ed) (last rows')"
    by (simp add: l address_of_payload_def address_insert_params_def
          extract_address_update_data_def Let_def)
  ultimately show ?thesis using s by blast
qed

text \<open>
  The same for a name-and-address change: there the last name too comes from the event,
  and the full name is formatted from the old first name and the new last name.
\<close>

lemma name_address_columns:
  assumes "name_address_step ok now (extract_name_address_update_data today ed) rows
             = Inr (True, rows')"
  shows "\<exists>s. select_sql (ed_employee_id ed) today
                (close_sql now today (ed_employee_id ed) rows) = Some s \<and>
             employee_id (last rows') = employee_id s \<and>
             first_name (last rows') = first_name s \<and>
             last_name (last rows') = get (ed_personal_info ed) ''last_name'' \<and>
             full_name (last rows') =
               Some (py_str (first_name s) @ '' ''
                       @ py_str (get (ed_personal_info ed) ''last_name'')) \<and>
             email_address (last rows') = email_address s \<and>
             phone_number (last rows') = phone_number s \<and>
             birth_date (last rows') = birth_date s \<and> gender (last rows') = gender s \<and>
             ethnicity (last rows') = ethnicity s \<and> nationality (last rows') = nationality s \<and>
             marital_status (last rows') = marital_status s \<and>
             hire_date (last rows') = hire_date s \<and>
             termination_date (last rows') = termination_date s \<and>
             is_active (last rows') = is_active s \<and>
             address_of_payload (ed_address ed) (last rows')"
proof -
  let ?u = "extract_name_address_update_data today ed"
  have f: "nu_employee_id ?u = ed_employee_id ed" "nu_effective_date ?u = today"
    by (simp_all add: extract_name_address_update_data_def Let_def)
  from assms
  have "scd2_step ok now (ed_employee_id ed) today
          (\<lambda>s. name_address_insert_params now s ?u) rows = Inr (True, rows')"
    by (simp add: name_address_step_def f)
  from scd2_step_result [OF this] obtain s where
    s: "select_sql (ed_employee_id ed) today (close_sql now today (ed_employee_id ed) rows) = Some s"
    and l: "last rows' = (name_address_insert_params now s ?u)
              \<lparr>employee_key := next_employee_key (close_sql now today (ed_employee_id ed) rows)\<rparr>"
    by auto
  show ?thesis
    using s
    by (simp add: l address_of_payload_def name_address_insert_params_def
          extract_name_address_update_data_def Let_def)
qed

lemma after_B_rows:
  "after_B =
     [\<lparr> employee_key = 1, employee_id = Some ''E1'', first_name = Some ''Ana'',
        last_name = Some ''Diaz'', full_name = Some ''Ana Diaz'', email_address = None,
        phone_number = None, birth_date = None, gender = None, ethnicity = None,
        nationality = None, marital_status = None,
        address_line1 = Some ''Av. Arequipa 100'', address_line2 = None,
        city = Some ''Lima'', state_province = None, postal_code = None,
        country_code = None, hire_date = None, termination_date = None, is_active = True,
        effective_date = date 2025 8 12, expiry_date = date 2025 8 12, is_current = False,
        created_date = 0, updated_date = 1 \<rparr>,
      \<lparr> employee_key = 2, employee_id = Some ''E1'', first_name = Some ''Ana'',
        last_name = Some ''Diaz'', full_name = Some ''Ana Diaz'', email_address = None,
        phone_number = None, birth_date = None, gender = None, ethnicity = None,
        nationality = None, marital_status = None,
        address_line1 = None, address_line2 = None,
        city = Some ''Cusco'', state_province = None, postal_code = None,
        country_code = None, hire_date = None, termination_date = None, is_active = True,
        effective_date = date 2025 8 13, expiry_date = date 9999 12 31, is_current = True,
        created_date = 1, updated_date = 1 \<rparr>]"
  by (simp add: after_B_def after_A_rows scenario_B_def to_cusco_def run_file_def main_def
        parse_defs store_defs date_defs validate_data_quality_def dup_check_sql_def
        date_check_sql_def)

lemma after_B_step:
  "address_step unconstrained 1 (extract_address_update_data (date 2025 8 13) to_cusco)
     after_A = Inr (True, after_B)"
  by (simp add: after_B_def after_A_rows scenario_B_def to_cusco_def run_file_def
        main_def parse_defs store_defs date_defs validate_data_quality_def dup_check_sql_def
        date_check_sql_def)

theorem address_columns_from_event_witness:
  "address_step unconstrained 1 (extract_address_update_data (date 2025 8 13) to_cusco)
     after_A = Inr (True, after_B) \<and>
   (\<exists>s. select_sql (ed_employee_id to_cusco) (date 2025 8 13)
           (close_sql 1 (date 2025 8 13) (ed_employee_id to_cusco) after_A) = Some s \<and>
        carried_forward s (last after_B) \<and>
        address_of_payload (ed_address to_cusco) (last after_B)) \<and>
   map first_name after_B = [Some ''Ana'', Some ''Ana''] \<and>
   map city after_B = [Some ''Lima'', Some ''Cusco''] \<and>
   map address_line1 after_B = [Some ''Av. Arequipa 100'', None]"
  using after_B_step address_columns_from_event [OF after_B_step] by (simp add: after_B_rows)

text \<open>
  Against claim C8 as stated: the event of scenario B has no \<^verbatim>\<open>address_line1\<close>; the
  closed row has one, the new version has \<^verbatim>\<open>NULL\<close>.
\<close>

theorem absent_address_field_becomes_null:
  "ed_address to_cusco ''address_line1'' = None \<and>
   map address_line1 after_A = [Some ''Av. Arequipa 100''] \<and>
   map is_current after_B = [False, True] \<and>
   map address_line1 after_B = [Some ''Av. Arequipa 100'', None]"
  by (simp add: to_cusco_def after_A_rows after_B_rows)

subsection \<open>Where the one-current-row invariant is kept\<close>

text \<open>
  The invariant is the validator's own check: \<^verbatim>\<open>dup_check_sql\<close> finds nothing. It
  says that every entity has at most one current row. An update step closes all
  current rows of its entity and inserts at most one.
\<close>

lemma dup_check_sql_empty:
  "dup_check_sql rows = [] \<longleftrightarrow> (\<forall>e. current_count e rows \<le> 1)"
proof
  assume "dup_check_sql rows = []"
  then have a: "\<forall>e \<in> set (map employee_id (filter is_current rows)). current_count e rows \<le> 1"
    by (auto simp: dup_check_sql_count filter_empty_conv not_less)
  show "\<forall>e. current_count e rows \<le> 1"
  proof
    fix e
    show "current_count e rows \<le> 1"
    proof (cases "e \<in> set (map employee_id (filter is_current rows))")
      case True
      with a show ?thesis by blast
    next
      case False
      then have "current_count e rows = 0"
        using current_count_pos [of e rows] by simp
      then show ?thesis by simp
    qed
  qed
next
  assume "\<forall>e. current_count e rows \<le> 1"
  then show "dup_check_sql rows = []"
    by (auto simp: dup_check_sql_count filter_empty_conv not_less)
qed

lemma close_set_columns:
  "is_current (close_set now eff r) = False"
  "employee_id (close_set now eff r) = employee_id r"
  "expiry_date (close_set now eff r) = eff - 1"
  "effective_date (close_set now eff r) = effective_date r"
  by (simp_all add: close_set_def)

lemma current_count_Cons:
  "current_count e (r # rows) =
     (if is_current r \<and> employee_id r = e then 1 else 0) + current_count e rows"
  by (simp add: current_count_def)

lemma current_count_close_sql:
  "current_count e (close_sql now eff eid rows) =
     (if sql_eq e eid then 0 else current_count e rows)"
proof (induction rows)
  case Nil
  show ?case by (simp add: close_sql_def current_count_def)
next
  case (Cons r rows)
  have c: "close_sql now eff eid (r # rows) =
             (if sql_eq (employee_id r) eid \<and> is_current r then close_set now eff r else r)
               # close_sql now eff eid rows"
    by (simp add: close_sql_def)
  show ?case
    unfolding c current_count_Cons Cons.IH
    by (auto simp: close_set_columns sql_eq_def)
qed

lemma current_count_append:
  "current_count e (rows @ [n]) =
     current_count e rows + (if is_current n \<and> employee_id n = e then 1 else 0)"
  by (simp add: current_count_def)

lemma scd2_step_current_count:
  assumes step: "scd2_step ok now eid eff insert_params rows = Inr (found, rows')"
    and params: "\<And>s. is_current (insert_params s) \<and> employee_id (insert_params s) = employee_id s"
  shows "current_count e rows' =
           (if sql_eq e eid then (if found then 1 else 0) else current_count e rows)"
proof (cases found)
  case False
  with scd2_step_result [OF step] show ?thesis
    by (simp add: current_count_close_sql)
next
  case True
  with scd2_step_result [OF step] obtain s where
    s: "select_sql eid eff (close_sql now eff eid rows) = Some s"
    and r: "rows' = close_sql now eff eid rows
              @ [(insert_params s)\<lparr>employee_key := next_employee_key (close_sql now eff eid rows)\<rparr>]"
    by auto
  from select_sql_latest [OF s] have "sql_eq (employee_id s) eid"
    by (simp add: latest_closed_def)
  then have "employee_id s = eid" "eid \<noteq> None"
    by (auto simp: sql_eq_def)
  with True params [of s] show ?thesis
    by (auto simp: r current_count_append current_count_close_sql sql_eq_def)
qed

lemma scd2_step_no_duplicates:
  assumes step: "scd2_step ok now eid eff insert_params rows = Inr (found, rows')"
    and params: "\<And>s. is_current (insert_params s) \<and> employee_id (insert_params s) = employee_id s"
    and inv: "dup_check_sql rows = []"
  shows "dup_check_sql rows' = []"
  using inv unfolding dup_check_sql_empty scd2_step_current_count [OF step params]
  by auto

lemma address_step_no_duplicates:
  assumes "address_step ok now u rows = Inr (found, rows')" "dup_check_sql rows = []"
  shows "dup_check_sql rows' = []"
  using assms(1) unfolding address_step_def
  by (rule scd2_step_no_duplicates) (simp_all add: address_insert_params_def assms(2))

lemma name_address_step_no_duplicates:
  assumes "name_address_step ok now u rows = Inr (found, rows')" "dup_check_sql rows = []"
  shows "dup_check_sql rows' = []"
  using assms(1) unfolding name_address_step_def
  by (rule scd2_step_no_duplicates) (simp_all add: name_address_insert_params_def Let_def assms(2))

lemma address_loop_no_duplicates:
  "address_loop ok now us c rows = Inr (c', rows') \<Longrightarrow> dup_check_sql rows = [] \<Longrightarrow>
   dup_check_sql rows' = []"
proof (induction us arbitrary: c rows)
  case Nil
  then show ?case by simp
next
  case (Cons u us)
  from Cons.prems(1) obtain found rows1 where
    s: "address_step ok now u rows = Inr (found, rows1)"
    and l: "address_loop ok now us (if found then c + 1 else c) rows1 = Inr (c', rows')"
    by (auto split: sum.splits)
  from s Cons.prems(2) have "dup_check_sql rows1 = []"
    by (rule address_step_no_duplicates)
  with l show ?case by (rule Cons.IH)
qed

lemma name_address_loop_no_duplicates:
  "name_address_loop ok now us c rows = Inr (c', rows') \<Longrightarrow> dup_check_sql rows = [] \<Longrightarrow>
   dup_check_sql rows' = []"
proof (induction us arbitrary: c rows)
  case Nil
  then show ?case by simp
next
  case (Cons u us)
  from Cons.prems(1) obtain found rows1 where
    s: "name_address_step ok now u rows = Inr (found, rows1)"
    and l: "name_address_loop ok now us (if found then c + 1 else c) rows1 = Inr (c', rows')"
    by (auto split: sum.splits)
  from s Cons.prems(2) have "dup_check_sql rows1 = []"
    by (rule name_address_step_no_duplicates)
  with l show ?case by (rule Cons.IH)
qed

lemma insert_loop_no_duplicates:
  "insert_loop ok now es c rows = Inr (c', rows') \<Longrightarrow> dup_check_sql rows = [] \<Longrightarrow>
   distinct (map ne_employee_id es) \<Longrightarrow>
   \<forall>e \<in> set es. current_count (ne_employee_id e) rows = 0 \<Longrightarrow>
   dup_check_sql rows' = []"
proof (induction es arbitrary: c rows)
  case Nil
  then show ?case by simp
next
  case (Cons e es)
  let ?n = "(insert_sql now e)\<lparr>employee_key := next_employee_key rows\<rparr>"
  from Cons.prems(1) have
    l: "insert_loop ok now es (c + 1) (rows @ [?n]) = Inr (c', rows')"
    by (auto simp: execute_insert_def Let_def split: sum.splits if_splits)
  have id: "employee_id ?n = ne_employee_id e"
    by (simp add: insert_sql_def)
  have cnt: "current_count x (rows @ [?n]) =
               current_count x rows + (if is_current ?n \<and> ne_employee_id e = x then 1 else 0)" for x
    by (simp add: current_count_append id)
  have inv: "dup_check_sql (rows @ [?n]) = []"
    unfolding dup_check_sql_empty
  proof
    fix x
    from Cons.prems(2) have "current_count x rows \<le> 1"
      by (simp add: dup_check_sql_empty)
    moreover from Cons.prems(4) have "current_count (ne_employee_id e) rows = 0" by simp
    ultimately show "current_count x (rows @ [?n]) \<le> 1"
      by (auto simp: cnt)
  qed
  have fresh: "\<forall>e' \<in> set es. current_count (ne_employee_id e') (rows @ [?n]) = 0"
    using Cons.prems(3,4) by (auto simp: cnt)
  from Cons.prems(3) have "distinct (map ne_employee_id es)" by simp
  from Cons.IH [OF l inv this fresh] show ?case .
qed

text \<open>
  So a batch keeps the table free of duplicate current rows whenever its new entities
  are pairwise different and none of them has a current row yet; the only way to a
  second current row is an insert for an entity that has one.
\<close>

lemma set_employee_no_duplicates:
  assumes inv: "dup_check_sql rows = []"
    and new: "distinct (map ne_employee_id (new_employees parsed))"
    and fresh: "\<forall>e \<in> set (new_employees parsed). current_count (ne_employee_id e) rows = 0"
  shows "dup_check_sql (snd (set_employee ok now parsed rows)) = []"
proof (cases "set_employee ok now parsed rows")
  case (Pair committed rows')
  show ?thesis
  proof (cases committed)
    case False
    with Pair have "rows' = rows"
      by (auto simp: set_employee_def split: sum.splits prod.splits)
    with Pair inv show ?thesis by simp
  next
    case True
    with Pair obtain c1 rows1 c2 rows2 c3 where
      i: "insert_loop ok now (new_employees parsed) 0 rows = Inr (c1, rows1)"
      and a: "address_loop ok now (address_updates parsed) 0 rows1 = Inr (c2, rows2)"
      and n: "name_address_loop ok now (name_and_address_updates parsed) 0 rows2 = Inr (c3, rows')"
      by (auto simp: set_employee_def insert_new_employees_def update_employee_addresses_def
            update_employee_names_addresses_def split: sum.splits prod.splits)
    from i inv new fresh have "dup_check_sql rows1 = []"
      by (rule insert_loop_no_duplicates)
    with a have "dup_check_sql rows2 = []"
      by (rule address_loop_no_duplicates)
    with n have "dup_check_sql rows' = []"
      by (rule name_address_loop_no_duplicates)
    with Pair show ?thesis by simp
  qed
qed

text \<open>
  A closed row passes the validator's date check only when the change is effective at
  least two days after the row itself.
\<close>

lemma close_set_range:
  "effective_date (close_set now eff r) < expiry_date (close_set now eff r)
     \<longleftrightarrow> effective_date r + 1 < eff"
  by (auto simp: close_set_columns)

end
